theory Spec2Isabelle
  imports Main "HOL-Library.Word" "HOL-Library.AList"
begin

section \<open>The dispatcher of the kernel core (xkernel\_core.cpp)\<close>

text \<open>
  The development embeds \<^verbatim>\<open>xkernel_core\<close>: the dispatcher that deserializes a wire
  message, records its parent, brackets the handler between a busy and an idle status
  publication and lets the handler answer on the shell or control channel.

  The collaborators of the dispatcher are not part of the sources: the codec
  (\<^verbatim>\<open>xmessage::deserialize\<close>), the transport (\<^verbatim>\<open>p_server\<close>), the interpreter
  (\<^verbatim>\<open>p_interpreter\<close>) and the comm manager. They are parameters of the model, collected
  in the record \<open>collaborators\<close>; every theorem holds for all of them. A call on the
  transport or on the interpreter is an event appended to the \<open>trace\<close> of the kernel, so
  the order of the calls can be read off.
\<close>

subsection \<open>JSON values and the accessors the dispatcher uses\<close>

text \<open>
  \<^verbatim>\<open>xjson\<close> is the JSON type of the JSON library. An object is a list of key/value pairs,
  read with \<open>map_of\<close> and written with \<open>AList.update\<close>. Floating-point numbers are
  left out: no handler reads one.
\<close>

datatype json =
    JNull
  | JBool bool
  | JInt int
  | JStr string
  | JArr "json list"
  | JObj "(string \<times> json) list"

text \<open>
  Every exception of the source derives from \<^verbatim>\<open>std::exception\<close>; it is a value that
  carries the text of \<^verbatim>\<open>what()\<close>. The \<^verbatim>\<open>catch (std::exception& e)\<close> clauses of the source
  catch all of them.
\<close>

datatype exn =
    type_error string
  | out_of_range string
  | std_exception string

fun what :: "exn \<Rightarrow> string" where
  "what (type_error s) = s"
| "what (out_of_range s) = s"
| "what (std_exception s) = s"

definition is_null :: "json \<Rightarrow> bool" where
  "is_null j = (j = JNull)"

text \<open>
  \<^verbatim>\<open>j.value(key, default)\<close> of the JSON library: on an object it returns the value
  stored under the key, converted to the type of the default, and the default when the key
  is absent; on anything but an object it throws a type error, and so does the conversion
  of a value of another type. One function per type of default used in the source. The
  source guards the one read of a content that may be null, in \<^verbatim>\<open>comm_info_request\<close>,
  with \<^verbatim>\<open>content.is_null()\<close>.
\<close>

definition value_str :: "json \<Rightarrow> string \<Rightarrow> string \<Rightarrow> exn + string" where
  "value_str j key dflt =
     (case j of
        JObj kvs \<Rightarrow>
          (case map_of kvs key of
             None \<Rightarrow> Inr dflt
           | Some (JStr s) \<Rightarrow> Inr s
           | Some _ \<Rightarrow> Inl (type_error ''type must be string''))
      | _ \<Rightarrow> Inl (type_error ''cannot use value() with this type''))"

definition value_bool :: "json \<Rightarrow> string \<Rightarrow> bool \<Rightarrow> exn + bool" where
  "value_bool j key dflt =
     (case j of
        JObj kvs \<Rightarrow>
          (case map_of kvs key of
             None \<Rightarrow> Inr dflt
           | Some (JBool b) \<Rightarrow> Inr b
           | Some _ \<Rightarrow> Inl (type_error ''type must be boolean''))
      | _ \<Rightarrow> Inl (type_error ''cannot use value() with this type''))"

text \<open>
  A C++ \<^verbatim>\<open>int\<close> is a 32-bit word, read as signed. A JSON integer is converted by a
  static cast, which keeps the low 32 bits; a JSON boolean converts to 0 or 1, as the
  conversion to an arithmetic type does in the current releases of the library. No
  property below depends on the value an integer field converts to.
\<close>

definition value_int :: "json \<Rightarrow> string \<Rightarrow> 32 word \<Rightarrow> exn + 32 word" where
  "value_int j key dflt =
     (case j of
        JObj kvs \<Rightarrow>
          (case map_of kvs key of
             None \<Rightarrow> Inr dflt
           | Some (JInt n) \<Rightarrow> Inr (word_of_int n)
           | Some (JBool b) \<Rightarrow> Inr (if b then 1 else 0)
           | Some _ \<Rightarrow> Inl (type_error ''type must be number''))
      | _ \<Rightarrow> Inl (type_error ''cannot use value() with this type''))"

text \<open>
  \<^verbatim>\<open>j[key] = v\<close> of the JSON library: a null value becomes an object first, an object
  gets the key inserted or overwritten, any other value throws a type error.
\<close>

definition set_key :: "json \<Rightarrow> string \<Rightarrow> json \<Rightarrow> exn + json" where
  "set_key j key v =
     (case j of
        JNull \<Rightarrow> Inr (JObj [(key, v)])
      | JObj kvs \<Rightarrow> Inr (JObj (AList.update key v kvs))
      | _ \<Rightarrow> Inl (type_error ''cannot use operator[] with this type''))"

text \<open>
  Modelled from the spec: \<^verbatim>\<open>get_json_node\<close> is declared outside the sources. The spec
  calls \<^verbatim>\<open>user_expressions\<close> an opaque JSON node that may be absent: the node stored
  under the name, or the null pointer (\<open>None\<close>).
\<close>

definition get_json_node :: "json \<Rightarrow> string \<Rightarrow> json option" where
  "get_json_node j name = (case j of JObj kvs \<Rightarrow> map_of kvs name | _ \<Rightarrow> None)"

subsection \<open>The two string operations of the abort callback\<close>

text \<open>
  \<^verbatim>\<open>std::string::find_last_of(ch)\<close>: the index of the last occurrence of the character,
  \<^verbatim>\<open>npos\<close> (\<open>None\<close>) when there is none.
\<close>

fun find_last_of :: "string \<Rightarrow> char \<Rightarrow> nat option" where
  "find_last_of [] ch = None"
| "find_last_of (x # xs) ch =
     (case find_last_of xs ch of
        Some i \<Rightarrow> Some (Suc i)
      | None \<Rightarrow> (if x = ch then Some 0 else None))"

text \<open>
  \<^verbatim>\<open>s.replace(pos, len, str)\<close>: throws \<^verbatim>\<open>std::out_of_range\<close> when \<open>pos\<close> is beyond the
  size of the string, as \<^verbatim>\<open>npos\<close> always is; otherwise the characters from \<open>pos\<close>, at
  most \<open>len\<close> of them, are replaced by \<open>str\<close>.
\<close>

definition string_replace :: "string \<Rightarrow> nat option \<Rightarrow> nat \<Rightarrow> string \<Rightarrow> exn + string" where
  "string_replace s pos len str =
     (case pos of
        None \<Rightarrow> Inl (out_of_range ''basic_string::replace'')
      | Some p \<Rightarrow>
          (if length s < p then Inl (out_of_range ''basic_string::replace'')
           else Inr (take p s @ str @ drop (p + len) s)))"

subsection \<open>Messages, events and the state of the kernel\<close>

type_synonym guid_list = "string list"

type_synonym wire = "string list"

record xmessage =
  identities :: guid_list
  header :: json
  parent_header :: json
  metadata :: json
  content :: json

record xpub_message =
  topic :: string
  pub_header :: json
  pub_parent_header :: json
  pub_metadata :: json
  pub_content :: json

datatype channel = SHELL | CONTROL

record xhistory_arguments =
  m_hist_access_type :: string
  m_output :: bool
  m_raw :: bool
  m_session :: "32 word"
  m_start :: "32 word"
  m_stop :: "32 word"
  m_n :: "32 word"
  m_pattern :: string
  m_unique :: bool

text \<open>The operations of the interpreter the handlers call, with their arguments.\<close>

datatype interpreter_call =
    Execute_request string bool bool "json option" bool
  | Complete_request string "32 word"
  | Inspect_request string "32 word" "32 word"
  | History_request xhistory_arguments
  | Is_complete_request string
  | Kernel_info_request
  | Interrupt_request

datatype comm_call = Comm_open | Comm_close | Comm_msg

text \<open>
  While it runs, the interpreter or the comm manager may call back into the kernel through
  the two functions the constructor registers with them: \<^verbatim>\<open>publish_message\<close> and
  \<^verbatim>\<open>send_stdin\<close>, each with a message type, metadata and content.
\<close>

datatype upcall =
    Publish_message string json json
  | Send_stdin string json json

text \<open>
  An event is a call on the transport, with the structured message that was serialized for
  it, or a call on the interpreter or the comm manager.
\<close>

datatype event =
    Server_send_shell xmessage
  | Server_send_control xmessage
  | Server_send_stdin xmessage
  | Server_publish xpub_message
  | Server_abort_queue nat
  | Server_stop
  | Interpreter interpreter_call
  | Comm_manager comm_call xmessage

datatype log = Log_str string | Log_json json

text \<open>
  The comm registry \<^verbatim>\<open>m_comm_manager.comms()\<close> maps a comm id to a comm, of which the
  dispatcher reads the target name only: a list of pairs, in the order of iteration.
\<close>

type_synonym comms = "(string \<times> string) list"

record xkernel_core =
  m_kernel_id :: string
  m_user_name :: string
  m_session_id :: string
  m_parent_id :: guid_list
  m_parent_header :: json
  m_comms :: comms
  trace :: "event list"
  cerr :: "log list"

text \<open>
  The collaborators. \<open>deserialize\<close> is \<^verbatim>\<open>xmessage::deserialize\<close> with the
  authentication of the kernel: a message or the exception it throws. \<open>interpreter\<close>
  answers a call with the upcalls it makes, the comm registry it leaves and the JSON value
  it returns or the exception it throws; \<open>comm_manager\<close> likewise, without a value.
  \<open>queued\<close> are the wire messages the transport hands to the drain callback of
  \<^verbatim>\<open>abort_queue\<close>. \<open>iso8601_now\<close> and \<open>get_protocol_version\<close> are the two
  functions of that name.
\<close>

record collaborators =
  deserialize :: "wire \<Rightarrow> exn + xmessage"
  interpreter :: "interpreter_call \<Rightarrow> comms \<Rightarrow> upcall list \<times> comms \<times> (exn + json)"
  comm_manager :: "comm_call \<Rightarrow> xmessage \<Rightarrow> comms \<Rightarrow> upcall list \<times> comms \<times> exn option"
  queued :: "wire list"
  iso8601_now :: string
  get_protocol_version :: string

subsection \<open>Outbound paths\<close>

text \<open>
  Modelled from the spec: \<^verbatim>\<open>make_header\<close> is defined outside the sources. The spec
  gives a header the string fields \<^verbatim>\<open>msg_id\<close>, \<^verbatim>\<open>msg_type\<close>, \<^verbatim>\<open>username\<close>,
  \<^verbatim>\<open>session\<close>, \<^verbatim>\<open>date\<close> and \<^verbatim>\<open>version\<close>. The three fields that come from the
  arguments are kept; the fresh identifier, the date and the version are not.
\<close>

definition make_header :: "string \<Rightarrow> string \<Rightarrow> string \<Rightarrow> json" where
  "make_header msg_type user_name session_id =
     JObj [(''msg_type'', JStr msg_type),
           (''username'', JStr user_name),
           (''session'', JStr session_id)]"

definition get_topic :: "xkernel_core \<Rightarrow> string \<Rightarrow> string" where
  "get_topic k msg_type = ''kernel_core.'' @ m_kernel_id k @ ''.'' @ msg_type"

definition get_metadata :: "collaborators \<Rightarrow> json" where
  "get_metadata E = JObj [(''started'', JStr (iso8601_now E))]"

definition set_parent :: "guid_list \<Rightarrow> json \<Rightarrow> xkernel_core \<Rightarrow> xkernel_core" where
  "set_parent parent_id parent_hdr k =
     k\<lparr>m_parent_id := parent_id, m_parent_header := parent_hdr\<rparr>"

definition get_parent_id :: "xkernel_core \<Rightarrow> guid_list" where
  "get_parent_id k = m_parent_id k"

definition get_parent_header :: "xkernel_core \<Rightarrow> json" where
  "get_parent_header k = m_parent_header k"

definition emit :: "event \<Rightarrow> xkernel_core \<Rightarrow> xkernel_core" where
  "emit e k = k\<lparr>trace := trace k @ [e]\<rparr>"

definition log_cerr :: "log list \<Rightarrow> xkernel_core \<Rightarrow> xkernel_core" where
  "log_cerr ls k = k\<lparr>cerr := cerr k @ ls\<rparr>"

definition publish_message :: "string \<Rightarrow> json \<Rightarrow> json \<Rightarrow> xkernel_core \<Rightarrow> xkernel_core" where
  "publish_message msg_type meta cont k =
     emit (Server_publish
            \<lparr>topic = get_topic k msg_type,
             pub_header = make_header msg_type (m_user_name k) (m_session_id k),
             pub_parent_header = get_parent_header k,
             pub_metadata = meta,
             pub_content = cont\<rparr>) k"

definition send_stdin :: "string \<Rightarrow> json \<Rightarrow> json \<Rightarrow> xkernel_core \<Rightarrow> xkernel_core" where
  "send_stdin msg_type meta cont k =
     emit (Server_send_stdin
            \<lparr>identities = get_parent_id k,
             header = make_header msg_type (m_user_name k) (m_session_id k),
             parent_header = get_parent_header k,
             metadata = meta,
             content = cont\<rparr>) k"

definition publish_status :: "string \<Rightarrow> xkernel_core \<Rightarrow> xkernel_core" where
  "publish_status status k =
     publish_message ''status'' (JObj []) (JObj [(''execution_state'', JStr status)]) k"

text \<open>The six-argument overload of \<^verbatim>\<open>send_reply\<close>, then the four-argument one.\<close>

definition send_reply_to ::
  "guid_list \<Rightarrow> string \<Rightarrow> json \<Rightarrow> json \<Rightarrow> json \<Rightarrow> channel \<Rightarrow> xkernel_core \<Rightarrow> xkernel_core" where
  "send_reply_to id_list reply_type parent_hdr meta reply_content c k =
     (let reply = \<lparr>identities = id_list,
                   header = make_header reply_type (m_user_name k) (m_session_id k),
                   parent_header = parent_hdr,
                   metadata = meta,
                   content = reply_content\<rparr>
      in if c = SHELL then emit (Server_send_shell reply) k
         else emit (Server_send_control reply) k)"

definition send_reply :: "string \<Rightarrow> json \<Rightarrow> json \<Rightarrow> channel \<Rightarrow> xkernel_core \<Rightarrow> xkernel_core" where
  "send_reply reply_type meta reply_content c k =
     send_reply_to (get_parent_id k) reply_type (get_parent_header k) meta reply_content c k"

text \<open>The upcalls of a collaborator, in the order it makes them.\<close>

fun run_upcall :: "upcall \<Rightarrow> xkernel_core \<Rightarrow> xkernel_core" where
  "run_upcall (Publish_message msg_type meta cont) k = publish_message msg_type meta cont k"
| "run_upcall (Send_stdin msg_type meta cont) k = send_stdin msg_type meta cont k"

fun run_upcalls :: "upcall list \<Rightarrow> xkernel_core \<Rightarrow> xkernel_core" where
  "run_upcalls [] k = k"
| "run_upcalls (u # us) k = run_upcalls us (run_upcall u k)"

text \<open>
  A call of the interpreter: the call is recorded, its upcalls run, the comm registry is
  the one it leaves, and the result is the returned value or the exception. A function
  that may throw returns the exception (\<open>Inl\<close>, or \<open>Some\<close> where there is no value)
  together with the state it leaves behind.
\<close>

definition call_interpreter ::
  "collaborators \<Rightarrow> interpreter_call \<Rightarrow> xkernel_core \<Rightarrow> (exn + json) \<times> xkernel_core" where
  "call_interpreter E call k =
     (case interpreter E call (m_comms k) of
        (ups, cs, res) \<Rightarrow> (res, (run_upcalls ups (emit (Interpreter call) k))\<lparr>m_comms := cs\<rparr>))"

definition call_comm_manager ::
  "collaborators \<Rightarrow> comm_call \<Rightarrow> xmessage \<Rightarrow> xkernel_core \<Rightarrow> exn option \<times> xkernel_core" where
  "call_comm_manager E call request k =
     (case comm_manager E call request (m_comms k) of
        (ups, cs, res) \<Rightarrow>
          (res, (run_upcalls ups (emit (Comm_manager call request) k))\<lparr>m_comms := cs\<rparr>))"

text \<open>Sequencing: the first exception ends the function, in the state reached.\<close>

definition try_val ::
  "exn + 'a \<Rightarrow> xkernel_core \<Rightarrow> ('a \<Rightarrow> exn option \<times> xkernel_core) \<Rightarrow> exn option \<times> xkernel_core" where
  "try_val r k f = (case r of Inl e \<Rightarrow> (Some e, k) | Inr v \<Rightarrow> f v)"

definition try_call ::
  "(exn + 'a) \<times> xkernel_core \<Rightarrow> ('a \<Rightarrow> xkernel_core \<Rightarrow> exn option \<times> xkernel_core)
     \<Rightarrow> exn option \<times> xkernel_core" where
  "try_call r f = (case r of (Inl e, k) \<Rightarrow> (Some e, k) | (Inr v, k) \<Rightarrow> f v k)"

subsection \<open>The abort callback\<close>

definition abort_request :: "collaborators \<Rightarrow> wire \<Rightarrow> xkernel_core \<Rightarrow> exn option \<times> xkernel_core" where
  "abort_request E wire_msg k =
     (case deserialize E wire_msg of
        Inl e \<Rightarrow>
          (None, log_cerr [Log_str ''ERROR: during execute_request: '', Log_str (what e)] k)
      | Inr msg \<Rightarrow>
          try_val (value_str (header msg) ''msg_type'' '''') k (\<lambda>msg_type.
          try_val (string_replace msg_type (find_last_of msg_type CHR ''_'') 8 ''_reply'') k
            (\<lambda>msg_type'.
          (None, send_reply_to (identities msg) msg_type' (header msg) (JObj [])
                   (JObj [(''status'', JStr ''error'')]) SHELL k))))"

text \<open>
  Modelled from the spec: \<^verbatim>\<open>p_server->abort_queue(drain_fn, timeout)\<close> belongs to the
  transport. The spec: it drains the queued inbound shell messages, invoking the callback
  per message. An exception of the callback ends the drain and reaches the caller.
\<close>

fun drain :: "collaborators \<Rightarrow> wire list \<Rightarrow> xkernel_core \<Rightarrow> exn option \<times> xkernel_core" where
  "drain E [] k = (None, k)"
| "drain E (w # ws) k =
     (case abort_request E w k of
        (Some e, k') \<Rightarrow> (Some e, k')
      | (None, k') \<Rightarrow> drain E ws k')"

definition abort_queue :: "collaborators \<Rightarrow> nat \<Rightarrow> xkernel_core \<Rightarrow> exn option \<times> xkernel_core" where
  "abort_queue E timeout k = drain E (queued E) (emit (Server_abort_queue timeout) k)"

subsection \<open>The request handlers\<close>

definition interrupt_request ::
  "collaborators \<Rightarrow> xmessage \<Rightarrow> channel \<Rightarrow> xkernel_core \<Rightarrow> exn option \<times> xkernel_core" where
  "interrupt_request E request c k =
     try_call (call_interpreter E Interrupt_request k) (\<lambda>_ k.
     (None, send_reply ''interrupt_reply'' (JObj []) (JObj []) c k))"

text \<open>
  The body of the \<^verbatim>\<open>try\<close> block of \<^verbatim>\<open>execute_request\<close>, then the handler with its
  \<^verbatim>\<open>catch\<close> clause, which logs the exception and returns normally.
\<close>

definition execute_request_try ::
  "collaborators \<Rightarrow> xmessage \<Rightarrow> channel \<Rightarrow> xkernel_core \<Rightarrow> exn option \<times> xkernel_core" where
  "execute_request_try E request c k =
     try_val (value_str (content request) ''code'' '''') k (\<lambda>code.
     try_val (value_bool (content request) ''silent'' False) k (\<lambda>silent.
     try_val (value_bool (content request) ''store_history'' True) k (\<lambda>store_history.
     let store_history = store_history \<and> \<not> silent;
         user_expression = get_json_node (content request) ''user_expressions''
     in
     try_val (value_bool (content request) ''allow_stdin'' True) k (\<lambda>allow_stdin.
     try_val (value_bool (content request) ''stop_on_error'' False) k (\<lambda>stop_on_error.
     let meta = get_metadata E in
     try_call (call_interpreter E
                 (Execute_request code silent store_history user_expression allow_stdin) k)
       (\<lambda>reply k.
     try_val (value_str reply ''status'' ''error'') k (\<lambda>status.
     let k = send_reply ''execute_reply'' meta reply c k in
     if \<not> silent \<and> status = ''error'' \<and> stop_on_error
     then abort_queue E 50 k
     else (None, k))))))))"

definition execute_request ::
  "collaborators \<Rightarrow> xmessage \<Rightarrow> channel \<Rightarrow> xkernel_core \<Rightarrow> exn option \<times> xkernel_core" where
  "execute_request E request c k =
     (case execute_request_try E request c k of
        (Some e, k') \<Rightarrow>
          (None, log_cerr [Log_str ''ERROR: during execute_request'', Log_str (what e)] k')
      | (None, k') \<Rightarrow> (None, k'))"

definition complete_request ::
  "collaborators \<Rightarrow> xmessage \<Rightarrow> channel \<Rightarrow> xkernel_core \<Rightarrow> exn option \<times> xkernel_core" where
  "complete_request E request c k =
     try_val (value_str (content request) ''code'' '''') k (\<lambda>code.
     try_val (value_int (content request) ''cursor_pos'' (- 1)) k (\<lambda>cursor_pos.
     try_call (call_interpreter E (Complete_request code cursor_pos) k) (\<lambda>reply k.
     (None, send_reply ''complete_request'' (JObj []) reply c k))))"

definition inspect_request ::
  "collaborators \<Rightarrow> xmessage \<Rightarrow> channel \<Rightarrow> xkernel_core \<Rightarrow> exn option \<times> xkernel_core" where
  "inspect_request E request c k =
     try_val (value_str (content request) ''code'' '''') k (\<lambda>code.
     try_val (value_int (content request) ''cursor_pos'' (- 1)) k (\<lambda>cursor_pos.
     try_val (value_int (content request) ''detail_level'' 0) k (\<lambda>detail_level.
     try_call (call_interpreter E (Inspect_request code cursor_pos detail_level) k)
       (\<lambda>reply k.
     (None, send_reply ''inspect_reply'' (JObj []) reply c k)))))"

definition history_request ::
  "collaborators \<Rightarrow> xmessage \<Rightarrow> channel \<Rightarrow> xkernel_core \<Rightarrow> exn option \<times> xkernel_core" where
  "history_request E request c k =
     try_val (value_str (content request) ''hist_access_type'' ''tail'') k (\<lambda>hist_access_type.
     try_val (value_bool (content request) ''output'' False) k (\<lambda>output.
     try_val (value_bool (content request) ''raw'' False) k (\<lambda>raw.
     try_val (value_int (content request) ''session'' 0) k (\<lambda>session.
     try_val (value_int (content request) ''start'' 0) k (\<lambda>start.
     try_val (value_int (content request) ''stop'' 0) k (\<lambda>stop.
     try_val (value_int (content request) ''n'' 0) k (\<lambda>n.
     try_val (value_str (content request) ''pattern'' '''') k (\<lambda>pattern.
     try_val (value_bool (content request) ''unique'' False) k (\<lambda>unique.
     let args = \<lparr>m_hist_access_type = hist_access_type, m_output = output, m_raw = raw,
                 m_session = session, m_start = start, m_stop = stop, m_n = n,
                 m_pattern = pattern, m_unique = unique\<rparr>
     in
     try_call (call_interpreter E (History_request args) k) (\<lambda>reply k.
     (None, send_reply ''history_reply'' (JObj []) reply c k)))))))))))"

definition is_complete_request ::
  "collaborators \<Rightarrow> xmessage \<Rightarrow> channel \<Rightarrow> xkernel_core \<Rightarrow> exn option \<times> xkernel_core" where
  "is_complete_request E request c k =
     try_val (value_str (content request) ''code'' '''') k (\<lambda>code.
     try_call (call_interpreter E (Is_complete_request code) k) (\<lambda>reply k.
     (None, send_reply ''is_complete_reply'' (JObj []) reply c k)))"

text \<open>
  The loop of \<^verbatim>\<open>comm_info_request\<close> over the comm registry: \<open>acc\<close> holds the pairs of
  the object \<^verbatim>\<open>comms\<close> built so far.
\<close>

fun comm_info_loop :: "string \<Rightarrow> comms \<Rightarrow> (string \<times> json) list \<Rightarrow> (string \<times> json) list" where
  "comm_info_loop target_name [] acc = acc"
| "comm_info_loop target_name ((comm_id, name) # rest) acc =
     comm_info_loop target_name rest
       (if target_name = [] \<or> name = target_name
        then AList.update comm_id (JObj [(''target_name'', JStr name)]) acc
        else acc)"

definition comm_info_request ::
  "collaborators \<Rightarrow> xmessage \<Rightarrow> channel \<Rightarrow> xkernel_core \<Rightarrow> exn option \<times> xkernel_core" where
  "comm_info_request E request c k =
     try_val (if is_null (content request) then Inr ''''
              else value_str (content request) ''target_name'' '''') k (\<lambda>target_name.
     let comms = JObj (comm_info_loop target_name (m_comms k) []);
         reply = JObj [(''comms'', comms), (''status'', JStr ''ok'')]
     in (None, send_reply ''comm_info_reply'' (JObj []) reply c k))"

definition kernel_info_request ::
  "collaborators \<Rightarrow> xmessage \<Rightarrow> channel \<Rightarrow> xkernel_core \<Rightarrow> exn option \<times> xkernel_core" where
  "kernel_info_request E request c k =
     try_call (call_interpreter E Kernel_info_request k) (\<lambda>reply k.
     try_val (set_key reply ''protocol_version'' (JStr (get_protocol_version E))) k (\<lambda>reply.
     (None, send_reply ''kernel_info_reply'' (JObj []) reply c k)))"

definition shutdown_request ::
  "collaborators \<Rightarrow> xmessage \<Rightarrow> channel \<Rightarrow> xkernel_core \<Rightarrow> exn option \<times> xkernel_core" where
  "shutdown_request E request c k =
     try_val (value_bool (content request) ''restart'' False) k (\<lambda>restart.
     let k = emit Server_stop k;
         reply = JObj [(''restart'', JBool restart)];
         k = publish_message ''shutdown'' (JObj []) reply k
     in (None, send_reply ''shutdown_reply'' (JObj []) reply c k))"

definition comm_open ::
  "collaborators \<Rightarrow> xmessage \<Rightarrow> channel \<Rightarrow> xkernel_core \<Rightarrow> exn option \<times> xkernel_core" where
  "comm_open E request c k = call_comm_manager E Comm_open request k"

definition comm_close ::
  "collaborators \<Rightarrow> xmessage \<Rightarrow> channel \<Rightarrow> xkernel_core \<Rightarrow> exn option \<times> xkernel_core" where
  "comm_close E request c k = call_comm_manager E Comm_close request k"

definition comm_msg ::
  "collaborators \<Rightarrow> xmessage \<Rightarrow> channel \<Rightarrow> xkernel_core \<Rightarrow> exn option \<times> xkernel_core" where
  "comm_msg E request c k = call_comm_manager E Comm_msg request k"

subsection \<open>The handler table and the dispatcher\<close>

type_synonym handler_type =
  "collaborators \<Rightarrow> xmessage \<Rightarrow> channel \<Rightarrow> xkernel_core \<Rightarrow> exn option \<times> xkernel_core"

text \<open>The table the constructor fills; \<open>None\<close> is the null pointer of \<^verbatim>\<open>get_handler\<close>.\<close>

definition m_handler :: "(string \<times> handler_type) list" where
  "m_handler =
     [(''execute_request'', execute_request),
      (''complete_request'', complete_request),
      (''inspect_request'', inspect_request),
      (''history_request'', history_request),
      (''is_complete_request'', is_complete_request),
      (''comm_info_request'', comm_info_request),
      (''comm_open'', comm_open),
      (''comm_close'', comm_close),
      (''comm_msg'', comm_msg),
      (''kernel_info_request'', kernel_info_request),
      (''shutdown_request'', shutdown_request),
      (''interrupt_request'', interrupt_request)]"

definition get_handler :: "string \<Rightarrow> handler_type option" where
  "get_handler msg_type = map_of m_handler msg_type"

text \<open>
  The state a new kernel starts in: \<^verbatim>\<open>m_parent_id(0)\<close> is the empty list and
  \<^verbatim>\<open>m_parent_header\<close> the empty object.
\<close>

definition new_kernel :: "string \<Rightarrow> string \<Rightarrow> string \<Rightarrow> xkernel_core" where
  "new_kernel kernel_id user_name session_id =
     \<lparr>m_kernel_id = kernel_id, m_user_name = user_name, m_session_id = session_id,
      m_parent_id = [], m_parent_header = JObj [], m_comms = [], trace = [], cerr = []\<rparr>"

text \<open>
  The second \<^verbatim>\<open>try\<close> block of \<^verbatim>\<open>dispatch\<close>: the handler runs and its exception, if
  any, is logged with the content of the message.
\<close>

definition invoke ::
  "collaborators \<Rightarrow> handler_type \<Rightarrow> xmessage \<Rightarrow> channel \<Rightarrow> xkernel_core \<Rightarrow> xkernel_core" where
  "invoke E handler msg c k =
     (case handler E msg c k of
        (None, k') \<Rightarrow> k'
      | (Some e, k') \<Rightarrow>
          log_cerr [Log_str ''ERROR: received bad message: '', Log_str (what e),
                    Log_str ''Message content: '', Log_json (content msg)] k')"

definition dispatch ::
  "collaborators \<Rightarrow> wire \<Rightarrow> channel \<Rightarrow> xkernel_core \<Rightarrow> exn option \<times> xkernel_core" where
  "dispatch E wire_msg c k =
     (case deserialize E wire_msg of
        Inl e \<Rightarrow>
          (None, log_cerr [Log_str ''ERROR: could not deserialize message'',
                           Log_str (what e)] k)
      | Inr msg \<Rightarrow>
          (let k = set_parent (identities msg) (header msg) k;
               k = publish_status ''busy'' k
           in
           try_val (value_str (header msg) ''msg_type'' '''') k (\<lambda>msg_type.
           let k = (case get_handler msg_type of
                      None \<Rightarrow> log_cerr [Log_str ''ERROR: received unknown message''] k
                    | Some handler \<Rightarrow> invoke E handler msg c k)
           in (None, publish_status ''idle'' k))))"

text \<open>The three listeners the constructor registers with the transport.\<close>

definition dispatch_shell :: "collaborators \<Rightarrow> wire \<Rightarrow> xkernel_core \<Rightarrow> exn option \<times> xkernel_core" where
  "dispatch_shell E wire_msg k = dispatch E wire_msg SHELL k"

definition dispatch_control :: "collaborators \<Rightarrow> wire \<Rightarrow> xkernel_core \<Rightarrow> exn option \<times> xkernel_core" where
  "dispatch_control E wire_msg k = dispatch E wire_msg CONTROL k"

definition dispatch_stdin :: "collaborators \<Rightarrow> wire \<Rightarrow> xkernel_core \<Rightarrow> exn option \<times> xkernel_core" where
  "dispatch_stdin E wire_msg k =
     (case deserialize E wire_msg of
        Inl e \<Rightarrow>
          (None, log_cerr [Log_str ''ERROR: could not deserialize message'',
                           Log_str (what e)] k)
      | Inr msg \<Rightarrow>
          try_val (value_str (header msg) ''msg_type'' '''') k (\<lambda>msg_type. (None, k)))"

subsection \<open>A concrete kernel, for the instances below\<close>

text \<open>
  Five wire messages and what the codec makes of them; any other wire message fails to
  deserialize. The interpreter of \<open>ex_world\<close> publishes one stream message while it
  executes and reports an error; the transport has one \<^verbatim>\<open>complete_request\<close> queued.
\<close>

definition ex_execute :: xmessage where
  "ex_execute =
     \<lparr>identities = [''client-A''],
      header = JObj [(''msg_id'', JStr ''1''), (''msg_type'', JStr ''execute_request'')],
      parent_header = JObj [],
      metadata = JObj [],
      content = JObj [(''code'', JStr ''1/0''), (''stop_on_error'', JBool True)]\<rparr>"

definition ex_silent :: xmessage where
  "ex_silent =
     \<lparr>identities = [''client-A''],
      header = JObj [(''msg_id'', JStr ''2''), (''msg_type'', JStr ''execute_request'')],
      parent_header = JObj [],
      metadata = JObj [],
      content = JObj [(''code'', JStr ''x=1''), (''silent'', JBool True),
                      (''store_history'', JBool True)]\<rparr>"

definition ex_complete :: xmessage where
  "ex_complete =
     \<lparr>identities = [''client-B''],
      header = JObj [(''msg_id'', JStr ''3''), (''msg_type'', JStr ''complete_request'')],
      parent_header = JObj [],
      metadata = JObj [],
      content = JObj [(''code'', JStr ''pri''), (''cursor_pos'', JInt 3)]\<rparr>"

definition ex_comm_info :: xmessage where
  "ex_comm_info =
     \<lparr>identities = [''client-A''],
      header = JObj [(''msg_id'', JStr ''4''), (''msg_type'', JStr ''comm_info_request'')],
      parent_header = JObj [],
      metadata = JObj [],
      content = JObj [(''target_name'', JStr ''plot'')]\<rparr>"

definition ex_input_reply :: xmessage where
  "ex_input_reply =
     \<lparr>identities = [''client-A''],
      header = JObj [(''msg_id'', JStr ''5''), (''msg_type'', JStr ''input_reply'')],
      parent_header = JObj [],
      metadata = JObj [],
      content = JObj [(''value'', JStr ''42'')]\<rparr>"

definition ex_deserialize :: "wire \<Rightarrow> exn + xmessage" where
  "ex_deserialize w =
     (case map_of [([''execute''], ex_execute), ([''silent''], ex_silent),
                   ([''complete''], ex_complete), ([''comm_info''], ex_comm_info),
                   ([''input_reply''], ex_input_reply)] w of
        Some msg \<Rightarrow> Inr msg
      | None \<Rightarrow> Inl (std_exception ''The signatures do not match''))"

definition ex_error_reply :: json where
  "ex_error_reply =
     JObj [(''status'', JStr ''error''), (''ename'', JStr ''E''), (''evalue'', JStr ''v'')]"

definition ex_interpreter ::
  "interpreter_call \<Rightarrow> comms \<Rightarrow> upcall list \<times> comms \<times> (exn + json)" where
  "ex_interpreter call cs =
     (case call of
        Execute_request code silent store_history user_expression allow_stdin \<Rightarrow>
          ([Publish_message ''stream'' (JObj []) (JObj [(''text'', JStr ''boom'')])], cs,
           Inr ex_error_reply)
      | _ \<Rightarrow> ([], cs, Inr (JObj [(''status'', JStr ''ok'')])))"

definition ex_world :: collaborators where
  "ex_world =
     \<lparr>deserialize = ex_deserialize,
      interpreter = ex_interpreter,
      comm_manager = (\<lambda>call request cs. ([], cs, None)),
      queued = [[''complete'']],
      iso8601_now = ''2017-02-01T00:00:00Z'',
      get_protocol_version = ''5.1''\<rparr>"

text \<open>The same world with an interpreter whose replies are empty objects.\<close>

definition ex_world_empty_reply :: collaborators where
  "ex_world_empty_reply = ex_world\<lparr>interpreter := (\<lambda>call cs. ([], cs, Inr (JObj [])))\<rparr>"

definition ex_kernel :: xkernel_core where
  "ex_kernel = new_kernel ''k'' ''user'' ''session''"

definition ex_kernel_comms :: xkernel_core where
  "ex_kernel_comms =
     ex_kernel\<lparr>m_comms := [(''c1'', ''plot''), (''c2'', ''slider''), (''c3'', ''plot'')]\<rparr>"

text \<open>A sixth wire message: its header is an object whose \<^verbatim>\<open>msg_type\<close> is a number.\<close>

definition ex_odd_header :: xmessage where
  "ex_odd_header =
     \<lparr>identities = [''client-A''],
      header = JObj [(''msg_id'', JStr ''6''), (''msg_type'', JInt 7)],
      parent_header = JObj [],
      metadata = JObj [],
      content = JObj []\<rparr>"

definition ex_world_odd :: collaborators where
  "ex_world_odd =
     ex_world\<lparr>deserialize :=
       (\<lambda>w. if w = [''odd_header''] then Inr ex_odd_header else ex_deserialize w)\<rparr>"

subsection \<open>Vocabulary of the properties\<close>

text \<open>The events a run, started in \<open>k\<close> and ended in \<open>k'\<close>, has added to the trace.\<close>

definition emitted :: "xkernel_core \<Rightarrow> xkernel_core \<Rightarrow> event list" where
  "emitted k k' = drop (length (trace k)) (trace k')"

text \<open>The event an upcall turns into, in a kernel whose identity and parent are those of \<open>k\<close>.\<close>

fun upcall_event :: "xkernel_core \<Rightarrow> upcall \<Rightarrow> event" where
  "upcall_event k (Publish_message msg_type meta cont) =
     Server_publish
       \<lparr>topic = get_topic k msg_type,
        pub_header = make_header msg_type (m_user_name k) (m_session_id k),
        pub_parent_header = m_parent_header k,
        pub_metadata = meta,
        pub_content = cont\<rparr>"
| "upcall_event k (Send_stdin msg_type meta cont) =
     Server_send_stdin
       \<lparr>identities = m_parent_id k,
        header = make_header msg_type (m_user_name k) (m_session_id k),
        parent_header = m_parent_header k,
        metadata = meta,
        content = cont\<rparr>"

text \<open>The status publication of a kernel \<open>k\<close> while it processes the request \<open>R\<close>.\<close>

definition status_event :: "xkernel_core \<Rightarrow> xmessage \<Rightarrow> string \<Rightarrow> event" where
  "status_event k R status =
     Server_publish
       \<lparr>topic = ''kernel_core.'' @ m_kernel_id k @ ''.status'',
        pub_header = make_header ''status'' (m_user_name k) (m_session_id k),
        pub_parent_header = header R,
        pub_metadata = JObj [],
        pub_content = JObj [(''execution_state'', JStr status)]\<rparr>"

text \<open>The reply of a kernel \<open>k\<close> on channel \<open>c\<close>.\<close>

definition reply_event ::
  "xkernel_core \<Rightarrow> channel \<Rightarrow> guid_list \<Rightarrow> string \<Rightarrow> json \<Rightarrow> json \<Rightarrow> json \<Rightarrow> event" where
  "reply_event k c ids reply_type parent_hdr meta cont =
     (let reply = \<lparr>identities = ids,
                   header = make_header reply_type (m_user_name k) (m_session_id k),
                   parent_header = parent_hdr,
                   metadata = meta,
                   content = cont\<rparr>
      in case c of SHELL \<Rightarrow> Server_send_shell reply | CONTROL \<Rightarrow> Server_send_control reply)"

text \<open>
  A reply carries the identities and the header of the request \<open>R\<close>, a publication its
  header. Events that are neither are not constrained.
\<close>

definition carries_parent :: "xmessage \<Rightarrow> event \<Rightarrow> bool" where
  "carries_parent R e =
     (case e of
        Server_send_shell m \<Rightarrow> identities m = identities R \<and> parent_header m = header R
      | Server_send_control m \<Rightarrow> identities m = identities R \<and> parent_header m = header R
      | Server_publish p \<Rightarrow> pub_parent_header p = header R
      | _ \<Rightarrow> True)"

text \<open>
  A reply of the abort callback: a shell reply with the identities of one of the queued
  messages and the header of that message as parent header.
\<close>

definition abort_reply :: "collaborators \<Rightarrow> event \<Rightarrow> bool" where
  "abort_reply E e =
     (case e of
        Server_send_shell m \<Rightarrow>
          list_ex (\<lambda>w. case deserialize E w of
                         Inl _ \<Rightarrow> False
                       | Inr d \<Rightarrow> identities m = identities d \<and> parent_header m = header d)
                  (queued E)
      | _ \<Rightarrow> False)"

text \<open>
  A run from \<open>k\<close> to \<open>k'\<close> keeps the identity and the parent of the kernel and appends
  events that satisfy \<open>P\<close> to the trace.
\<close>

definition step_ok :: "(event \<Rightarrow> bool) \<Rightarrow> xkernel_core \<Rightarrow> xkernel_core \<Rightarrow> bool" where
  "step_ok P k k' \<longleftrightarrow>
     m_kernel_id k' = m_kernel_id k \<and> m_user_name k' = m_user_name k \<and>
     m_session_id k' = m_session_id k \<and> m_parent_id k' = m_parent_id k \<and>
     m_parent_header k' = m_parent_header k \<and>
     (\<exists>evs. trace k' = trace k @ evs \<and> list_all P evs)"

text \<open>The kernel \<open>k\<close> is processing the request \<open>R\<close>.\<close>

definition par :: "xmessage \<Rightarrow> xkernel_core \<Rightarrow> bool" where
  "par R k \<longleftrightarrow> m_parent_id k = identities R \<and> m_parent_header k = header R"

definition good :: "collaborators \<Rightarrow> xmessage \<Rightarrow> event \<Rightarrow> bool" where
  "good E R e \<longleftrightarrow> carries_parent R e \<or> abort_reply E e"

text \<open>An event that is a call of the interpreter.\<close>

fun interpreter_event :: "event \<Rightarrow> bool" where
  "interpreter_event (Interpreter call) = True"
| "interpreter_event _ = False"

text \<open>A call of the interpreter's execute operation that asks to store the history.\<close>

fun stores_history :: "event \<Rightarrow> bool" where
  "stores_history (Interpreter (Execute_request code silent store_history ue allow_stdin)) =
     store_history"
| "stores_history _ = False"

subsection \<open>Runs only append to the trace\<close>

lemma step_ok_refl: "step_ok P k k"
  by (simp add: step_ok_def)

lemma step_ok_trans: "step_ok P k k1 \<Longrightarrow> step_ok P k1 k2 \<Longrightarrow> step_ok P k k2"
  by (auto simp add: step_ok_def)

lemma step_ok_emit: "P e \<Longrightarrow> step_ok P k (emit e k)"
  by (simp add: step_ok_def emit_def)

lemma step_ok_log: "step_ok P k (log_cerr ls k)"
  by (simp add: step_ok_def log_cerr_def)

lemma step_ok_mono: "step_ok P k k' \<Longrightarrow> (\<And>e. P e \<Longrightarrow> Q e) \<Longrightarrow> step_ok Q k k'"
  by (auto simp add: step_ok_def list_all_iff)

lemma step_ok_emitted: "step_ok P k k' \<Longrightarrow> list_all P (emitted k k')"
  by (auto simp add: step_ok_def emitted_def)

lemma step_ok_trace: "step_ok P k k' \<Longrightarrow> trace k' = trace k @ emitted k k'"
  by (auto simp add: step_ok_def emitted_def)

lemma upcall_event_step: "step_ok P k k' \<Longrightarrow> upcall_event k' u = upcall_event k u"
  by (cases u) (simp_all add: step_ok_def get_topic_def)

lemma run_upcall_eq: "run_upcall u k = emit (upcall_event k u) k"
  by (cases u)
    (simp_all add: publish_message_def send_stdin_def get_parent_header_def get_parent_id_def)

lemma run_upcalls_eq: "run_upcalls ups k = k\<lparr>trace := trace k @ map (upcall_event k) ups\<rparr>"
proof (induction ups arbitrary: k)
  case Nil
  show ?case by simp
next
  case (Cons u ups)
  have same: "upcall_event (emit (upcall_event k u) k) = upcall_event k"
    by (rule ext, rule upcall_event_step [of "\<lambda>_. True"], rule step_ok_emit) simp
  show ?case
    by (simp add: Cons.IH run_upcall_eq same) (simp add: emit_def)
qed

lemma upcall_event_upd [simp]:
  "upcall_event (k\<lparr>trace := t\<rparr>) = upcall_event k"
  "upcall_event (k\<lparr>m_comms := cs\<rparr>) = upcall_event k"
  "upcall_event (k\<lparr>cerr := ls\<rparr>) = upcall_event k"
  by (rule ext, case_tac x, simp_all add: get_topic_def)+

lemmas closed = emit_def log_cerr_def publish_message_def send_stdin_def send_reply_def
  send_reply_to_def get_parent_header_def get_parent_id_def run_upcalls_eq
  call_interpreter_def call_comm_manager_def try_val_def try_call_def Let_def

subsection \<open>Every handler keeps the parent and emits events that carry it\<close>

lemma par_step: "step_ok P k k' \<Longrightarrow> par R k \<Longrightarrow> par R k'"
  by (simp add: step_ok_def par_def)

lemma par_set_parent: "par R (set_parent (identities R) (header R) k)"
  by (simp add: par_def set_parent_def)

lemma good_upcalls: "par R k \<Longrightarrow> list_all (good E R) (map (upcall_event k) ups)"
proof -
  assume p: "par R k"
  have "good E R (upcall_event k u)" for u
    using p by (cases u) (simp_all add: good_def par_def carries_parent_def)
  then show ?thesis by (simp add: list_all_iff)
qed

lemma good_simps:
  "good E R (Interpreter ic)"
  "good E R (Comm_manager cc m)"
  "good E R Server_stop"
  "good E R (Server_abort_queue n)"
  "good E R (Server_send_stdin m)"
  "par R k \<Longrightarrow> good E R (Server_publish \<lparr>topic = t, pub_header = h,
     pub_parent_header = m_parent_header k, pub_metadata = md, pub_content = ct\<rparr>)"
  "par R k \<Longrightarrow> good E R (Server_send_shell \<lparr>identities = m_parent_id k, header = h,
     parent_header = m_parent_header k, metadata = md, content = ct\<rparr>)"
  "par R k \<Longrightarrow> good E R (Server_send_control \<lparr>identities = m_parent_id k, header = h,
     parent_header = m_parent_header k, metadata = md, content = ct\<rparr>)"
  by (simp_all add: good_def carries_parent_def par_def)

lemma send_reply_ok: "par R k \<Longrightarrow> step_ok (good E R) k (send_reply t md ct c k)"
  by (auto simp add: closed step_ok_def good_simps)

lemma call_interpreter_ok: "par R k \<Longrightarrow> step_ok (good E R) k (snd (call_interpreter E ic k))"
  by (auto simp add: closed step_ok_def good_simps good_upcalls split: prod.splits)

lemma comm_ok: "par R k \<Longrightarrow> step_ok (good E R) k (snd (call_comm_manager E cc msg k))"
  by (auto simp add: closed step_ok_def good_simps good_upcalls split: prod.splits)

lemma try_val_ok:
  "(\<And>v. step_ok P k (snd (f v))) \<Longrightarrow> step_ok P k (snd (try_val r k f))"
  by (cases r) (simp_all add: try_val_def step_ok_refl)

lemma try_call_ok:
  assumes "step_ok P k (snd rk)" and "\<And>v. step_ok P (snd rk) (snd (f v (snd rk)))"
  shows "step_ok P k (snd (try_call rk f))"
proof (cases rk)
  case (Pair r k1)
  with assms show ?thesis
    by (cases r) (auto simp add: try_call_def intro: step_ok_trans)
qed

lemma interrupt_ok: "par R k \<Longrightarrow> step_ok (good E R) k (snd (interrupt_request E msg c k))"
  unfolding interrupt_request_def
  by (intro try_call_ok call_interpreter_ok) (simp_all add: send_reply_ok par_step [OF call_interpreter_ok])

lemma complete_ok: "par R k \<Longrightarrow> step_ok (good E R) k (snd (complete_request E msg c k))"
  unfolding complete_request_def
  by (intro try_val_ok try_call_ok call_interpreter_ok)
     (simp_all add: send_reply_ok par_step [OF call_interpreter_ok])

lemma inspect_ok: "par R k \<Longrightarrow> step_ok (good E R) k (snd (inspect_request E msg c k))"
  unfolding inspect_request_def
  by (intro try_val_ok try_call_ok call_interpreter_ok)
     (simp_all add: send_reply_ok par_step [OF call_interpreter_ok])

lemma history_ok: "par R k \<Longrightarrow> step_ok (good E R) k (snd (history_request E msg c k))"
  unfolding history_request_def Let_def
  by (intro try_val_ok try_call_ok call_interpreter_ok)
     (simp_all add: send_reply_ok par_step [OF call_interpreter_ok])

lemma is_complete_ok: "par R k \<Longrightarrow> step_ok (good E R) k (snd (is_complete_request E msg c k))"
  unfolding is_complete_request_def
  by (intro try_val_ok try_call_ok call_interpreter_ok)
     (simp_all add: send_reply_ok par_step [OF call_interpreter_ok])

lemma comm_info_ok: "par R k \<Longrightarrow> step_ok (good E R) k (snd (comm_info_request E msg c k))"
  unfolding comm_info_request_def Let_def
  by (intro try_val_ok) (simp add: send_reply_ok)

lemma kernel_info_ok: "par R k \<Longrightarrow> step_ok (good E R) k (snd (kernel_info_request E msg c k))"
  unfolding kernel_info_request_def
  by (intro try_val_ok try_call_ok call_interpreter_ok)
     (simp_all add: send_reply_ok par_step [OF call_interpreter_ok])

lemma shutdown_ok: "par R k \<Longrightarrow> step_ok (good E R) k (snd (shutdown_request E msg c k))"
  by (auto simp add: shutdown_request_def closed step_ok_def good_simps split: sum.splits)

lemma abort_request_ok:
  "w \<in> set (queued E) \<Longrightarrow> step_ok (abort_reply E) k (snd (abort_request E w k))"
  by (auto simp add: abort_request_def closed step_ok_def abort_reply_def list_ex_iff
           split: sum.splits prod.splits intro!: bexI [of _ w])

lemma drain_ok:
  "set ws \<subseteq> set (queued E) \<Longrightarrow> step_ok (abort_reply E) k (snd (drain E ws k))"
proof (induction ws arbitrary: k)
  case Nil
  show ?case by (simp add: step_ok_refl)
next
  case (Cons w ws)
  have one: "step_ok (abort_reply E) k (snd (abort_request E w k))"
    using Cons.prems by (simp add: abort_request_ok)
  show ?case
  proof (cases "abort_request E w k")
    case (Pair r k1)
    with one have k1: "step_ok (abort_reply E) k k1" by simp
    show ?thesis
    proof (cases r)
      case None
      have "step_ok (abort_reply E) k1 (snd (drain E ws k1))"
        using Cons.prems by (intro Cons.IH) simp
      with k1 show ?thesis using Pair None by (simp add: step_ok_trans [of _ k k1])
    next
      case (Some e)
      with k1 Pair show ?thesis by simp
    qed
  qed
qed

lemma abort_queue_ok: "step_ok (good E R) k (snd (abort_queue E n k))"
  unfolding abort_queue_def
proof (rule step_ok_trans [OF step_ok_emit])
  show "good E R (Server_abort_queue n)" by (simp add: good_simps)
  show "step_ok (good E R) (emit (Server_abort_queue n) k)
          (snd (drain E (queued E) (emit (Server_abort_queue n) k)))"
    by (rule step_ok_mono [OF drain_ok]) (simp_all add: good_def)
qed

lemma execute_tail_ok:
  assumes "par R k"
  shows "step_ok (good E R) k
           (snd (if b then abort_queue E n (send_reply t md ct c k)
                 else (None, send_reply t md ct c k)))"
  using send_reply_ok [OF assms, of E t md ct c]
  by (auto intro: step_ok_trans abort_queue_ok)

lemma execute_try_ok:
  assumes "par R k"
  shows "step_ok (good E R) k (snd (execute_request_try E msg c k))"
  unfolding execute_request_try_def Let_def
  by (intro try_val_ok try_call_ok call_interpreter_ok assms execute_tail_ok
        par_step [OF call_interpreter_ok [OF assms] assms])

lemma execute_ok: "par R k \<Longrightarrow> step_ok (good E R) k (snd (execute_request E msg c k))"
  using execute_try_ok [of R k E msg c]
  by (auto simp add: execute_request_def split: prod.splits option.splits
           intro: step_ok_trans step_ok_log)

lemma handler_ok:
  assumes "get_handler t = Some h" and "par R k"
  shows "step_ok (good E R) k (snd (h E msg c k))"
proof -
  from assms(1) have "h \<in> {execute_request, complete_request, inspect_request,
      history_request, is_complete_request, comm_info_request, comm_open, comm_close,
      comm_msg, kernel_info_request, shutdown_request, interrupt_request}"
    by (auto simp add: get_handler_def m_handler_def split: if_splits)
  with assms(2) show ?thesis
    by (auto simp add: execute_ok complete_ok inspect_ok history_ok is_complete_ok
        comm_info_ok kernel_info_ok shutdown_ok interrupt_ok comm_ok
        comm_open_def comm_close_def comm_msg_def)
qed

subsection \<open>The dispatcher\<close>

lemma publish_status_eq:
  "par R k \<Longrightarrow> publish_status st k = emit (status_event k R st) k"
  by (simp add: publish_status_def publish_message_def status_event_def get_topic_def
        get_parent_header_def par_def)

lemma status_event_step: "step_ok P k k' \<Longrightarrow> status_event k' R st = status_event k R st"
  by (simp add: step_ok_def status_event_def)

lemma good_status: "good E R (status_event k R st)"
  by (simp add: good_def carries_parent_def status_event_def)

lemma invoke_ok:
  assumes "get_handler t = Some h" and "par R k"
  shows "step_ok (good E R) k (invoke E h msg c k)"
    and "emitted k (invoke E h msg c k) = emitted k (snd (h E msg c k))"
  using handler_ok [OF assms, of E msg c]
  by (auto simp add: invoke_def emitted_def log_cerr_def step_ok_def
           split: prod.splits option.splits)

lemma dispatch_run:
  assumes "deserialize E wire_msg = Inr R"
  shows "step_ok (good E R) (set_parent (identities R) (header R) k)
           (snd (dispatch E wire_msg c k))"
proof -
  let ?k0 = "set_parent (identities R) (header R) k"
  let ?k1 = "publish_status ''busy'' ?k0"
  have p0: "par R ?k0" by (rule par_set_parent)
  have s1: "step_ok (good E R) ?k0 ?k1"
    by (simp add: publish_status_eq [OF p0] step_ok_emit good_status)
  have p1: "par R ?k1" using s1 p0 by (rule par_step)
  have after: "step_ok (good E R) ?k1 (publish_status ''idle'' k2)"
    if "step_ok (good E R) ?k1 k2" for k2
  proof -
    have "par R k2" using that p1 by (rule par_step)
    then have "step_ok (good E R) k2 (publish_status ''idle'' k2)"
      by (simp add: publish_status_eq step_ok_emit good_status)
    with that show ?thesis by (rule step_ok_trans)
  qed
  have "step_ok (good E R) ?k1 (snd (dispatch E wire_msg c k))"
    using assms
    by (auto simp add: dispatch_def Let_def try_val_def step_ok_refl
             split: sum.splits option.splits
             intro!: after step_ok_log invoke_ok(1) [OF _ p1])
  with s1 show ?thesis by (rule step_ok_trans)
qed

subsection \<open>The abort callback and \<^verbatim>\<open>execute_request\<close>\<close>

lemma find_last_of_absent: "ch \<notin> set t \<Longrightarrow> find_last_of t ch = None"
  by (induction t) auto

lemma find_last_of_append:
  "ch \<notin> set t \<Longrightarrow> find_last_of (p @ ch # t) ch = Some (length p)"
  by (induction p) (simp_all add: find_last_of_absent)

lemma replace_request_suffix:
  "string_replace (stem @ ''_request'') (find_last_of (stem @ ''_request'') CHR ''_'') 8
     ''_reply'' = Inr (stem @ ''_reply'')"
proof -
  have "find_last_of (stem @ CHR ''_'' # ''request'') CHR ''_'' = Some (length stem)"
    by (rule find_last_of_append) simp
  then show ?thesis by (simp add: string_replace_def)
qed

lemma abort_queue_trace:
  "\<exists>drained. trace (snd (abort_queue E n k)) = trace k @ Server_abort_queue n # drained \<and>
     list_all (abort_reply E) drained"
proof -
  let ?k1 = "emit (Server_abort_queue n) k"
  have "step_ok (abort_reply E) ?k1 (snd (drain E (queued E) ?k1))"
    by (rule drain_ok) simp
  then obtain evs where "trace (snd (drain E (queued E) ?k1)) = trace ?k1 @ evs"
    and "list_all (abort_reply E) evs"
    by (auto simp add: step_ok_def)
  then show ?thesis
    by (simp add: abort_queue_def emit_def)
qed

lemma execute_request_trace:
  assumes "value_str (content request) ''code'' '''' = Inr code"
      and "value_bool (content request) ''silent'' False = Inr silent"
      and "value_bool (content request) ''store_history'' True = Inr store_history"
      and "value_bool (content request) ''allow_stdin'' True = Inr allow_stdin"
      and "value_bool (content request) ''stop_on_error'' False = Inr stop_on_error"
      and "interpreter E
             (Execute_request code silent (store_history \<and> \<not> silent)
                (get_json_node (content request) ''user_expressions'') allow_stdin)
             (m_comms k) = (ups, cs, Inr reply)"
      and "value_str reply ''status'' ''error'' = Inr status"
  shows "\<exists>drained.
           emitted k (snd (execute_request E request c k)) =
             Interpreter (Execute_request code silent (store_history \<and> \<not> silent)
                (get_json_node (content request) ''user_expressions'') allow_stdin)
             # map (upcall_event k) ups
             @ reply_event k c (m_parent_id k) ''execute_reply'' (m_parent_header k)
                 (get_metadata E) reply
             # (if \<not> silent \<and> status = ''error'' \<and> stop_on_error
                then Server_abort_queue 50 # drained else []) \<and>
           list_all (abort_reply E) drained"
proof -
  let ?call = "Execute_request code silent (store_history \<and> \<not> silent)
                (get_json_node (content request) ''user_expressions'') allow_stdin"
  let ?k1 = "(run_upcalls ups (emit (Interpreter ?call) k))\<lparr>m_comms := cs\<rparr>"
  let ?k2 = "send_reply ''execute_reply'' (get_metadata E) reply c ?k1"
  have t2: "trace ?k2 = trace k @ Interpreter ?call # map (upcall_event k) ups @
              [reply_event k c (m_parent_id k) ''execute_reply'' (m_parent_header k)
                 (get_metadata E) reply]"
    by (cases c) (simp_all add: closed reply_event_def)
  have run: "execute_request_try E request c k =
               (if \<not> silent \<and> status = ''error'' \<and> stop_on_error
                then abort_queue E 50 ?k2 else (None, ?k2))"
    using assms by (simp add: execute_request_try_def try_val_def try_call_def
        call_interpreter_def Let_def)
  show ?thesis
  proof (cases "\<not> silent \<and> status = ''error'' \<and> stop_on_error")
    case False
    then have "snd (execute_request E request c k) = ?k2"
      using run by (auto simp add: execute_request_def)
    with t2 show ?thesis
      using False by (intro exI [of _ "[]"]) (simp add: emitted_def)
  next
    case True
    obtain drained
      where d: "trace (snd (abort_queue E 50 ?k2)) = trace ?k2 @ Server_abort_queue 50 # drained"
        and ok: "list_all (abort_reply E) drained"
      using abort_queue_trace [of E 50 ?k2] by blast
    have "trace (snd (execute_request E request c k)) = trace (snd (abort_queue E 50 ?k2))"
      using run True
      by (auto simp add: execute_request_def log_cerr_def split: prod.splits option.splits)
    with d show ?thesis
      using True ok t2 by (intro exI [of _ drained]) (simp add: emitted_def)
  qed
qed

lemma abort_reply_not_abort_queue: "abort_reply E e \<Longrightarrow> e \<noteq> Server_abort_queue n"
  by (auto simp add: abort_reply_def)

lemma upcall_event_not_abort_queue: "upcall_event k u \<noteq> Server_abort_queue n"
  by (cases u) simp_all

lemma reply_event_not_abort_queue: "reply_event k c ids t ph md ct \<noteq> Server_abort_queue n"
  by (cases c) (simp_all add: reply_event_def)

lemma upcall_event_not_interpreter: "\<not> interpreter_event (upcall_event k u)"
  by (cases u) simp_all

lemma reply_event_not_interpreter: "\<not> interpreter_event (reply_event k c ids t ph md ct)"
  by (cases c) (simp_all add: reply_event_def)

lemma execute_request_silent_trace:
  assumes "value_bool (content request) ''silent'' False = Inr True"
      and "value_str (content request) ''code'' '''' = Inr code"
      and "value_bool (content request) ''store_history'' True = Inr store_history"
      and "value_bool (content request) ''allow_stdin'' True = Inr allow_stdin"
      and "value_bool (content request) ''stop_on_error'' False = Inr stop_on_error"
  shows "\<exists>rest.
           emitted k (snd (execute_request E request c k)) =
             Interpreter (Execute_request code True False
                (get_json_node (content request) ''user_expressions'') allow_stdin) # rest \<and>
           list_all (\<lambda>e. \<not> interpreter_event e) rest"
proof -
  let ?call = "Execute_request code True False
                (get_json_node (content request) ''user_expressions'') allow_stdin"
  obtain ups cs res where i: "interpreter E ?call (m_comms k) = (ups, cs, res)"
    by (cases "interpreter E ?call (m_comms k)") auto
  let ?k1 = "(run_upcalls ups (emit (Interpreter ?call) k))\<lparr>m_comms := cs\<rparr>"
  have t1: "trace ?k1 = trace k @ Interpreter ?call # map (upcall_event k) ups"
    by (simp add: closed)
  have ups_ok: "list_all (\<lambda>e. \<not> interpreter_event e) (map (upcall_event k) ups)"
    by (simp add: list_all_iff upcall_event_not_interpreter)
  have "trace (snd (execute_request E request c k)) = trace ?k1 \<or>
        (\<exists>reply. trace (snd (execute_request E request c k)) =
           trace ?k1 @ [reply_event k c (m_parent_id k) ''execute_reply'' (m_parent_header k)
                 (get_metadata E) reply])"
    using assms i
    by (cases c)
       (auto simp add: execute_request_def execute_request_try_def try_val_def try_call_def
          call_interpreter_def Let_def log_cerr_def send_reply_def send_reply_to_def
          emit_def run_upcalls_eq get_parent_id_def get_parent_header_def reply_event_def
          split: sum.splits)
  then show ?thesis
  proof
    assume "trace (snd (execute_request E request c k)) = trace ?k1"
    with t1 ups_ok show ?thesis
      by (intro exI [of _ "map (upcall_event k) ups"]) (simp add: emitted_def)
  next
    assume "\<exists>reply. trace (snd (execute_request E request c k)) =
           trace ?k1 @ [reply_event k c (m_parent_id k) ''execute_reply'' (m_parent_header k)
                 (get_metadata E) reply]"
    then obtain reply where "trace (snd (execute_request E request c k)) =
           trace ?k1 @ [reply_event k c (m_parent_id k) ''execute_reply'' (m_parent_header k)
                 (get_metadata E) reply]" ..
    with t1 ups_ok show ?thesis
      by (intro exI [of _ "map (upcall_event k) ups @
            [reply_event k c (m_parent_id k) ''execute_reply'' (m_parent_header k)
                 (get_metadata E) reply]"])
         (simp add: emitted_def reply_event_not_interpreter)
  qed
qed

lemma execute_request_unread:
  assumes "value_str (content request) ''code'' '''' = Inl e1 \<or>
           value_bool (content request) ''silent'' False = Inl e2 \<or>
           value_bool (content request) ''store_history'' True = Inl e3 \<or>
           value_bool (content request) ''allow_stdin'' True = Inl e4 \<or>
           value_bool (content request) ''stop_on_error'' False = Inl e5"
  shows "emitted k (snd (execute_request E request c k)) = []"
  using assms
  by (auto simp add: execute_request_def execute_request_try_def try_val_def log_cerr_def
        emitted_def Let_def split: sum.splits)

lemma not_interpreter_not_stores: "\<not> interpreter_event e \<Longrightarrow> \<not> stores_history e"
  by (cases e) simp_all

lemmas ex_defs = ex_world_def ex_world_odd_def ex_world_empty_reply_def ex_deserialize_def
  ex_interpreter_def ex_kernel_def ex_kernel_comms_def new_kernel_def ex_execute_def
  ex_silent_def ex_complete_def ex_comm_info_def ex_input_reply_def ex_odd_header_def
  ex_error_reply_def

lemmas run_defs = dispatch_def dispatch_stdin_def invoke_def get_handler_def m_handler_def
  execute_request_def execute_request_try_def complete_request_def comm_info_request_def
  abort_queue_def abort_request_def set_parent_def publish_status_def
  value_str_def value_bool_def value_int_def get_json_node_def get_metadata_def
  string_replace_def make_header_def get_topic_def is_null_def


subsection \<open>The loop of \<^verbatim>\<open>comm_info_request\<close>\<close>

lemma comm_info_loop_lookup:
  "distinct (map fst cs) \<Longrightarrow>
   map_of (comm_info_loop t cs acc) comm_id =
     (case map_of cs comm_id of
        None \<Rightarrow> map_of acc comm_id
      | Some name \<Rightarrow>
          if t = [] \<or> name = t then Some (JObj [(''target_name'', JStr name)])
          else map_of acc comm_id)"
proof (induction cs arbitrary: acc)
  case Nil
  show ?case by simp
next
  case (Cons p cs)
  obtain i name where p: "p = (i, name)" by (cases p)
  have d: "distinct (map fst cs)" and fresh: "i \<notin> fst ` set cs"
    using Cons.prems p by auto
  have absent: "map_of cs i = None"
    using fresh by (simp add: map_of_eq_None_iff)
  show ?case
    using absent by (simp add: p Cons.IH [OF d] update_conv' split: option.splits)
qed

lemma comm_info_loop_distinct:
  "distinct (map fst acc) \<Longrightarrow> distinct (map fst (comm_info_loop t cs acc))"
  by (induction cs arbitrary: acc) (auto simp add: distinct_update)

section \<open>The claims\<close>

subsection \<open>C1: the busy/idle bracket\<close>

text \<open>
  Claim C1. For every shell or control wire message that deserializes successfully, the
  dispatcher publishes exactly one status publication \<^verbatim>\<open>busy\<close> before the handler
  lookup and exactly one status publication \<^verbatim>\<open>idle\<close> after, in that order, whether or
  not the message type has a registered handler and whether or not the handler throws.

  The code attempts this and misses one case. An unknown message type and a throwing
  handler both reach \<^verbatim>\<open>publish_status("idle")\<close>, and the message type is read with the
  tolerant default \<^verbatim>\<open>""\<close>. But the read, \<^verbatim>\<open>header.value("msg_type", "")\<close>, stands
  after \<^verbatim>\<open>publish_status("busy")\<close> and outside the \<^verbatim>\<open>try\<close> block, so on a header
  whose \<^verbatim>\<open>msg_type\<close> is not a string the type error of the JSON library leaves
  \<^verbatim>\<open>dispatch\<close> with the busy status published and no idle status. The run below is the
  dispatch of a message that deserializes and whose header holds the number 7 as
  \<^verbatim>\<open>msg_type\<close>: \<^verbatim>\<open>dispatch\<close> ends with the exception, the parent is set, and the
  trace holds the busy status alone.
\<close>

theorem dispatch_busy_without_idle:
  "deserialize ex_world_odd [''odd_header''] = Inr ex_odd_header \<and>
   dispatch ex_world_odd [''odd_header''] SHELL ex_kernel =
     (Some (type_error ''type must be string''),
      ex_kernel\<lparr>m_parent_id := identities ex_odd_header,
                m_parent_header := header ex_odd_header,
                trace := [status_event ex_kernel ex_odd_header ''busy'']\<rparr>)"
  by (simp add: ex_defs run_defs closed status_event_def)

text \<open>
  The defect is confined to that read. When the header is an object in which
  \<^verbatim>\<open>msg_type\<close> is a string or absent, \<^verbatim>\<open>dispatch\<close> returns normally and the events it
  adds to the trace are the busy status, then the events of the handler, then the idle
  status: nothing between the two when no handler is registered for the message type, and
  exactly what the handler emitted otherwise, whether it returned or threw.
\<close>

lemma dispatch_busy_idle:
  assumes "deserialize E wire_msg = Inr msg"
      and "header msg = JObj h"
      and "map_of h ''msg_type'' = None \<and> msg_type = [] \<or>
           map_of h ''msg_type'' = Some (JStr msg_type)"
  shows "\<exists>k' evs.
           dispatch E wire_msg c k = (None, k') \<and>
           trace k' =
             trace k @ [status_event k msg ''busy''] @ evs @ [status_event k msg ''idle''] \<and>
           (case get_handler msg_type of
              None \<Rightarrow> evs = []
            | Some handler \<Rightarrow>
                (let k1 = publish_status ''busy'' (set_parent (identities msg) (header msg) k)
                 in evs = emitted k1 (snd (handler E msg c k1))))"
proof -
  let ?k0 = "set_parent (identities msg) (header msg) k"
  let ?k1 = "publish_status ''busy'' ?k0"
  have ty: "value_str (header msg) ''msg_type'' '''' = Inr msg_type"
    using assms(2,3) by (auto simp add: value_str_def)
  have p0: "par msg ?k0" by (rule par_set_parent)
  have ev0: "status_event ?k0 msg = status_event k msg"
    by (rule ext) (simp add: status_event_def set_parent_def)
  have t1: "trace ?k1 = trace k @ [status_event k msg ''busy'']"
    by (simp add: publish_status_eq [OF p0] ev0 emit_def) (simp add: set_parent_def)
  have s1: "step_ok (good E msg) ?k0 ?k1"
    by (simp add: publish_status_eq [OF p0] step_ok_emit good_status)
  have p1: "par msg ?k1" using s1 p0 by (rule par_step)
  have idle: "trace (publish_status ''idle'' k2) =
                trace k @ [status_event k msg ''busy''] @ emitted ?k1 k2 @
                [status_event k msg ''idle'']"
    if "step_ok (good E msg) ?k1 k2" for k2
  proof -
    have "par msg k2" using that p1 by (rule par_step)
    moreover have "status_event k2 msg = status_event k msg"
      using status_event_step [OF that] status_event_step [OF s1] ev0 by (auto intro: ext)
    ultimately show ?thesis
      using step_ok_trace [OF that] by (simp add: publish_status_eq emit_def t1)
  qed
  show ?thesis
  proof (cases "get_handler msg_type")
    case None
    have "step_ok (good E msg) ?k1 (log_cerr [Log_str ''ERROR: received unknown message''] ?k1)"
      by (rule step_ok_log)
    from idle [OF this] show ?thesis
      using assms(1) ty None
      by (simp add: dispatch_def Let_def try_val_def emitted_def log_cerr_def)
  next
    case (Some handler)
    from idle [OF invoke_ok(1) [OF Some p1]] show ?thesis
      using assms(1) ty Some
      by (simp add: dispatch_def Let_def try_val_def invoke_ok(2) [OF Some p1])
  qed
qed

subsection \<open>C2: replies and publications carry the parent\<close>

text \<open>
  Claim C2, as amended. For every shell or control request \<open>R\<close> that deserializes
  successfully, every reply emitted while \<open>R\<close> is processed either carries the
  identities of \<open>R\<close> as its identity frames and the header of \<open>R\<close> as its parent
  header, or is a reply of the abort callback, which carries the identities and the header
  of the queued message it answers; every publication emitted while \<open>R\<close> is processed
  carries the header of \<open>R\<close> as its parent header.

  As stated for every reply, the claim fails: an \<^verbatim>\<open>execute_request\<close> that ends in an
  error with \<^verbatim>\<open>stop_on_error\<close> drains the queue, and \<^verbatim>\<open>abort_request\<close> answers each
  drained message with that message's identities and header, not those of \<open>R\<close>.
\<close>

theorem dispatch_parent_carried:
  assumes "deserialize E wire_msg = Inr R"
  shows "list_all (\<lambda>e. carries_parent R e \<or> abort_reply E e)
           (emitted k (snd (dispatch E wire_msg c k)))"
proof -
  have "emitted k (snd (dispatch E wire_msg c k)) =
        emitted (set_parent (identities R) (header R) k) (snd (dispatch E wire_msg c k))"
    by (simp add: emitted_def set_parent_def)
  with step_ok_emitted [OF dispatch_run [OF assms, of k c]]
  show ?thesis by (simp add: good_def [abs_def])
qed

theorem dispatch_parent_carried_witness:
  "deserialize ex_world [''execute''] = Inr ex_execute \<and>
   list_all (\<lambda>e. carries_parent ex_execute e \<or> abort_reply ex_world e)
     (emitted ex_kernel (snd (dispatch ex_world [''execute''] SHELL ex_kernel)))"
proof -
  have h: "deserialize ex_world [''execute''] = Inr ex_execute"
    by (simp add: ex_world_def ex_deserialize_def)
  show ?thesis
    by (intro conjI h dispatch_parent_carried [OF h])
qed

text \<open>
  The claim as stated fails on the \<^verbatim>\<open>execute_request\<close> of client A while a
  \<^verbatim>\<open>complete_request\<close> of client B is queued: the events emitted while the request of A
  is processed do not all carry its identities and header.
\<close>

theorem abort_reply_carries_other_parent:
  "deserialize ex_world [''execute''] = Inr ex_execute \<and>
   \<not> list_all (carries_parent ex_execute)
       (emitted ex_kernel (snd (dispatch ex_world [''execute''] SHELL ex_kernel)))"
  by (simp add: ex_defs run_defs closed emitted_def carries_parent_def)

subsection \<open>C3: a message that fails to deserialize is dropped\<close>

text \<open>
  Claim C3. When the deserialization of a shell or control wire message fails with a
  decode error, the dispatcher logs the error and returns: the kernel it leaves is the
  kernel it found with two more lines on \<^verbatim>\<open>std::cerr\<close>. So the trace is the same (no
  reply is sent and no status is published) and the parent identities and the parent
  header are unchanged.
\<close>

theorem dispatch_decode_error:
  assumes "deserialize E wire_msg = Inl e"
  shows "dispatch E wire_msg c k =
           (None, k\<lparr>cerr := cerr k @ [Log_str ''ERROR: could not deserialize message'',
                                        Log_str (what e)]\<rparr>)"
  using assms by (simp add: dispatch_def log_cerr_def)

theorem dispatch_decode_error_witness:
  "deserialize ex_world [''garbage''] = Inl (std_exception ''The signatures do not match'') \<and>
   dispatch ex_world [''garbage''] SHELL ex_kernel =
     (None, ex_kernel\<lparr>cerr := [Log_str ''ERROR: could not deserialize message'',
                               Log_str ''The signatures do not match'']\<rparr>)"
proof -
  have h: "deserialize ex_world [''garbage''] =
             Inl (std_exception ''The signatures do not match'')"
    by (simp add: ex_world_def ex_deserialize_def)
  show ?thesis
    using h dispatch_decode_error [OF h, of SHELL ex_kernel]
    by (simp add: ex_kernel_def new_kernel_def)
qed

subsection \<open>C4: the reply to a \<^verbatim>\<open>complete_request\<close>\<close>

text \<open>
  Claim C4 says that the reply to a \<^verbatim>\<open>complete_request\<close> has the message type
  \<^verbatim>\<open>complete_reply\<close>. The handler does read \<^verbatim>\<open>code\<close> and \<^verbatim>\<open>cursor_pos\<close>, calls
  the interpreter with them and sends what it returns, but it passes the string
  \<^verbatim>\<open>complete_request\<close> to \<^verbatim>\<open>send_reply\<close>. The run below is the dispatch of the
  \<^verbatim>\<open>complete_request\<close> of client B: the header of the reply names the type of the
  request.
\<close>

theorem complete_request_reply_type:
  "emitted ex_kernel (snd (dispatch ex_world [''complete''] SHELL ex_kernel)) =
     [status_event ex_kernel ex_complete ''busy'',
      Interpreter (Complete_request ''pri'' 3),
      Server_send_shell
        \<lparr>identities = [''client-B''],
         header = JObj [(''msg_type'', JStr ''complete_request''),
                        (''username'', JStr ''user''), (''session'', JStr ''session'')],
         parent_header = header ex_complete,
         metadata = JObj [],
         content = JObj [(''status'', JStr ''ok'')]\<rparr>,
      status_event ex_kernel ex_complete ''idle'']"
  by (simp add: ex_defs run_defs closed emitted_def status_event_def)

subsection \<open>C5: \<^verbatim>\<open>dispatch_stdin\<close>\<close>

text \<open>
  Claim C5, as amended. For every stdin wire message that deserializes successfully,
  \<^verbatim>\<open>dispatch_stdin\<close> leaves the kernel as it found it: the parent identities and the
  parent header keep their previous values, nothing is sent or published, and no handler
  is dispatched.

  The claim as stated has \<^verbatim>\<open>dispatch_stdin\<close> record the identities and the header of
  the message as the current parent. The function reads the message type of the header
  and returns; it never calls \<^verbatim>\<open>set_parent\<close>.
\<close>

theorem dispatch_stdin_no_effect:
  assumes "deserialize E wire_msg = Inr msg"
  shows "snd (dispatch_stdin E wire_msg k) = k"
  using assms by (simp add: dispatch_stdin_def try_val_def split: sum.splits)

theorem dispatch_stdin_no_effect_witness:
  "deserialize ex_world [''input_reply''] = Inr ex_input_reply \<and>
   snd (dispatch_stdin ex_world [''input_reply''] ex_kernel) = ex_kernel"
proof -
  have h: "deserialize ex_world [''input_reply''] = Inr ex_input_reply"
    by (simp add: ex_world_def ex_deserialize_def)
  show ?thesis
    by (intro conjI h dispatch_stdin_no_effect [OF h])
qed

text \<open>
  The claim as stated fails on the input reply of client A, dispatched by a new kernel:
  the parent identities stay empty and the parent header stays the empty object.
\<close>

theorem dispatch_stdin_parent_not_recorded:
  "deserialize ex_world [''input_reply''] = Inr ex_input_reply \<and>
   m_parent_id (snd (dispatch_stdin ex_world [''input_reply''] ex_kernel))
     \<noteq> identities ex_input_reply \<and>
   m_parent_header (snd (dispatch_stdin ex_world [''input_reply''] ex_kernel))
     \<noteq> header ex_input_reply"
  by (simp add: ex_defs run_defs closed)

subsection \<open>C6: a silent execution stores no history\<close>

text \<open>
  Claim C6. For every \<^verbatim>\<open>execute_request\<close> whose content has \<^verbatim>\<open>silent\<close> equal to
  true, no call of the interpreter's execute operation made by the handler asks to store
  the history. When the other fields of the content can be read, whatever the value of
  \<^verbatim>\<open>store_history\<close> among them (true when the field is absent), the handler makes
  exactly one call of the interpreter, its first event, with \<^verbatim>\<open>silent\<close> true and
  \<^verbatim>\<open>store_history\<close> false.
\<close>

theorem execute_request_silent:
  assumes "value_bool (content request) ''silent'' False = Inr True"
  shows "list_all (\<lambda>e. \<not> stores_history e) (emitted k (snd (execute_request E request c k))) \<and>
         (\<forall>code store_history allow_stdin stop_on_error.
            value_str (content request) ''code'' '''' = Inr code \<and>
            value_bool (content request) ''store_history'' True = Inr store_history \<and>
            value_bool (content request) ''allow_stdin'' True = Inr allow_stdin \<and>
            value_bool (content request) ''stop_on_error'' False = Inr stop_on_error \<longrightarrow>
            (\<exists>rest. emitted k (snd (execute_request E request c k)) =
               Interpreter (Execute_request code True False
                 (get_json_node (content request) ''user_expressions'') allow_stdin) # rest \<and>
               list_all (\<lambda>e. \<not> interpreter_event e) rest))"
proof (intro conjI allI impI)
  show "list_all (\<lambda>e. \<not> stores_history e) (emitted k (snd (execute_request E request c k)))"
  proof (cases "\<exists>code sh a s. value_str (content request) ''code'' '''' = Inr code \<and>
            value_bool (content request) ''store_history'' True = Inr sh \<and>
            value_bool (content request) ''allow_stdin'' True = Inr a \<and>
            value_bool (content request) ''stop_on_error'' False = Inr s")
    case True
    then obtain code sh a s where "value_str (content request) ''code'' '''' = Inr code"
      "value_bool (content request) ''store_history'' True = Inr sh"
      "value_bool (content request) ''allow_stdin'' True = Inr a"
      "value_bool (content request) ''stop_on_error'' False = Inr s" by blast
    from execute_request_silent_trace [OF assms this, of k E c]
    show ?thesis by (auto simp add: list_all_iff not_interpreter_not_stores)
  next
    case False
    then have "(\<exists>e. value_str (content request) ''code'' '''' = Inl e) \<or>
           (\<exists>e. value_bool (content request) ''store_history'' True = Inl e) \<or>
           (\<exists>e. value_bool (content request) ''allow_stdin'' True = Inl e) \<or>
           (\<exists>e. value_bool (content request) ''stop_on_error'' False = Inl e)"
      by (metis sum.exhaust)
    then have "emitted k (snd (execute_request E request c k)) = []"
      using execute_request_unread [of request _ _ _ _ _ k E c] by blast
    then show ?thesis by simp
  qed
next
  fix code store_history allow_stdin stop_on_error
  assume "value_str (content request) ''code'' '''' = Inr code \<and>
            value_bool (content request) ''store_history'' True = Inr store_history \<and>
            value_bool (content request) ''allow_stdin'' True = Inr allow_stdin \<and>
            value_bool (content request) ''stop_on_error'' False = Inr stop_on_error"
  then show "\<exists>rest. emitted k (snd (execute_request E request c k)) =
               Interpreter (Execute_request code True False
                 (get_json_node (content request) ''user_expressions'') allow_stdin) # rest \<and>
               list_all (\<lambda>e. \<not> interpreter_event e) rest"
    using execute_request_silent_trace [OF assms, of code store_history allow_stdin stop_on_error k E c]
    by blast
qed

theorem execute_request_silent_witness:
  "value_bool (content ex_silent) ''silent'' False = Inr True \<and>
   value_bool (content ex_silent) ''store_history'' True = Inr True \<and>
   list_all (\<lambda>e. \<not> stores_history e)
     (emitted ex_kernel (snd (execute_request ex_world ex_silent SHELL ex_kernel))) \<and>
   (\<exists>rest. emitted ex_kernel (snd (execute_request ex_world ex_silent SHELL ex_kernel)) =
      Interpreter (Execute_request ''x=1'' True False
        (get_json_node (content ex_silent) ''user_expressions'') True) # rest \<and>
      list_all (\<lambda>e. \<not> interpreter_event e) rest)"
proof -
  have h: "value_bool (content ex_silent) ''silent'' False = Inr True"
    by (simp add: ex_silent_def value_bool_def)
  have sh: "value_bool (content ex_silent) ''store_history'' True = Inr True"
    by (simp add: ex_silent_def value_bool_def)
  have rd: "value_str (content ex_silent) ''code'' '''' = Inr ''x=1'' \<and>
            value_bool (content ex_silent) ''store_history'' True = Inr True \<and>
            value_bool (content ex_silent) ''allow_stdin'' True = Inr True \<and>
            value_bool (content ex_silent) ''stop_on_error'' False = Inr False"
    by (simp add: ex_silent_def value_bool_def value_str_def)
  note inst = execute_request_silent [OF h, of ex_kernel ex_world SHELL]
  from inst have a: "list_all (\<lambda>e. \<not> stores_history e)
     (emitted ex_kernel (snd (execute_request ex_world ex_silent SHELL ex_kernel)))"
    by (rule conjunct1)
  from inst rd have b: "\<exists>rest.
      emitted ex_kernel (snd (execute_request ex_world ex_silent SHELL ex_kernel)) =
      Interpreter (Execute_request ''x=1'' True False
        (get_json_node (content ex_silent) ''user_expressions'') True) # rest \<and>
      list_all (\<lambda>e. \<not> interpreter_event e) rest"
    by blast
  show ?thesis
    by (intro conjI h sh a b)
qed

subsection \<open>C7: when the queue is aborted\<close>

text \<open>
  Claim C7, as amended. For every \<^verbatim>\<open>execute_request\<close> whose content can be read and
  to which the interpreter returns a JSON object whose \<^verbatim>\<open>status\<close> is a string or
  absent, the handler calls \<^verbatim>\<open>abort_queue\<close> with a timeout of 50 if and only if
  \<^verbatim>\<open>silent\<close> is false, \<^verbatim>\<open>stop_on_error\<close> is true and the status of the reply is
  \<^verbatim>\<open>error\<close> or absent. The events of the handler are, in this order: the call of the
  interpreter, its upcalls, the \<^verbatim>\<open>execute_reply\<close> with the returned object as content
  and, when the queue is aborted, the call of \<^verbatim>\<open>abort_queue\<close> and the replies of the
  abort callback. So the reply is sent before the queue is aborted.

  As stated, with the status \<^verbatim>\<open>error\<close> as a necessary condition, the claim fails: the
  handler reads the status with \<^verbatim>\<open>reply.value("status", "error")\<close>, so a reply without
  a status counts as an error.
\<close>

theorem execute_request_abort_queue:
  assumes "value_str (content request) ''code'' '''' = Inr code"
      and "value_bool (content request) ''silent'' False = Inr silent"
      and "value_bool (content request) ''store_history'' True = Inr store_history"
      and "value_bool (content request) ''allow_stdin'' True = Inr allow_stdin"
      and "value_bool (content request) ''stop_on_error'' False = Inr stop_on_error"
      and "interpreter E
             (Execute_request code silent (store_history \<and> \<not> silent)
                (get_json_node (content request) ''user_expressions'') allow_stdin)
             (m_comms k) = (ups, cs, Inr (JObj reply))"
      and "map_of reply ''status'' = None \<or> (\<exists>s. map_of reply ''status'' = Some (JStr s))"
  shows "\<exists>drained.
           emitted k (snd (execute_request E request c k)) =
             Interpreter (Execute_request code silent (store_history \<and> \<not> silent)
                (get_json_node (content request) ''user_expressions'') allow_stdin)
             # map (upcall_event k) ups
             @ reply_event k c (m_parent_id k) ''execute_reply'' (m_parent_header k)
                 (get_metadata E) (JObj reply)
             # (if \<not> silent \<and> stop_on_error \<and>
                   (map_of reply ''status'' = Some (JStr ''error'') \<or>
                    map_of reply ''status'' = None)
                then Server_abort_queue 50 # drained else []) \<and>
           list_all (abort_reply E) drained \<and>
           (Server_abort_queue 50 \<in> set (emitted k (snd (execute_request E request c k)))) =
             (\<not> silent \<and> stop_on_error \<and>
                (map_of reply ''status'' = Some (JStr ''error'') \<or>
                 map_of reply ''status'' = None))"
proof -
  obtain status where st: "value_str (JObj reply) ''status'' ''error'' = Inr status"
    and iff: "(status = ''error'') =
                (map_of reply ''status'' = Some (JStr ''error'') \<or>
                 map_of reply ''status'' = None)"
    using assms(7) by (auto simp add: value_str_def)
  from execute_request_trace [OF assms(1-6) st, of c]
  obtain drained where
    tr: "emitted k (snd (execute_request E request c k)) =
           Interpreter (Execute_request code silent (store_history \<and> \<not> silent)
              (get_json_node (content request) ''user_expressions'') allow_stdin)
           # map (upcall_event k) ups
           @ reply_event k c (m_parent_id k) ''execute_reply'' (m_parent_header k)
               (get_metadata E) (JObj reply)
           # (if \<not> silent \<and> status = ''error'' \<and> stop_on_error
              then Server_abort_queue 50 # drained else [])"
    and ok: "list_all (abort_reply E) drained"
    by blast
  have no_ups: "Server_abort_queue 50 \<notin> set (map (upcall_event k) ups)"
  proof -
    have "upcall_event k u \<noteq> Server_abort_queue 50" for u
      by (rule upcall_event_not_abort_queue)
    then show ?thesis by force
  qed
  have no_drained: "Server_abort_queue 50 \<notin> set drained"
    using ok abort_reply_not_abort_queue [of E _ 50] by (auto simp add: list_all_iff)
  have mem: "(Server_abort_queue 50 \<in> set (emitted k (snd (execute_request E request c k)))) =
               (\<not> silent \<and> status = ''error'' \<and> stop_on_error)"
  proof -
    have r: "Server_abort_queue 50 \<noteq>
               reply_event k c (m_parent_id k) ''execute_reply'' (m_parent_header k)
                 (get_metadata E) (JObj reply)"
      using reply_event_not_abort_queue [of k c "m_parent_id k" "''execute_reply''"
          "m_parent_header k" "get_metadata E" "JObj reply" 50] by simp
    show ?thesis
      unfolding tr using no_ups no_drained r by (simp del: set_map)
  qed
  show ?thesis
    using tr ok mem iff by (intro exI [of _ drained]) auto
qed

theorem execute_request_abort_queue_witness:
  "value_bool (content ex_execute) ''silent'' False = Inr False \<and>
   value_bool (content ex_execute) ''stop_on_error'' False = Inr True \<and>
   interpreter ex_world (Execute_request ''1/0'' False (True \<and> \<not> False)
       (get_json_node (content ex_execute) ''user_expressions'') True) (m_comms ex_kernel) =
     ([Publish_message ''stream'' (JObj []) (JObj [(''text'', JStr ''boom'')])], [],
      Inr (JObj [(''status'', JStr ''error''), (''ename'', JStr ''E''),
                 (''evalue'', JStr ''v'')])) \<and>
   Server_abort_queue 50
     \<in> set (emitted ex_kernel (snd (execute_request ex_world ex_execute SHELL ex_kernel)))"
proof -
  have h1: "value_str (content ex_execute) ''code'' '''' = Inr ''1/0''"
    by (simp add: ex_execute_def value_str_def)
  have h2: "value_bool (content ex_execute) ''silent'' False = Inr False"
    by (simp add: ex_execute_def value_bool_def)
  have h3: "value_bool (content ex_execute) ''store_history'' True = Inr True"
    by (simp add: ex_execute_def value_bool_def)
  have h4: "value_bool (content ex_execute) ''allow_stdin'' True = Inr True"
    by (simp add: ex_execute_def value_bool_def)
  have h5: "value_bool (content ex_execute) ''stop_on_error'' False = Inr True"
    by (simp add: ex_execute_def value_bool_def)
  have h6: "interpreter ex_world (Execute_request ''1/0'' False (True \<and> \<not> False)
       (get_json_node (content ex_execute) ''user_expressions'') True) (m_comms ex_kernel) =
     ([Publish_message ''stream'' (JObj []) (JObj [(''text'', JStr ''boom'')])], [],
      Inr (JObj [(''status'', JStr ''error''), (''ename'', JStr ''E''),
                 (''evalue'', JStr ''v'')]))"
    by (simp add: ex_defs)
  have h7: "map_of [(''status'', JStr ''error''), (''ename'', JStr ''E''),
                    (''evalue'', JStr ''v'')] ''status'' = None \<or>
            (\<exists>s. map_of [(''status'', JStr ''error''), (''ename'', JStr ''E''),
                    (''evalue'', JStr ''v'')] ''status'' = Some (JStr s))"
    by simp
  from execute_request_abort_queue [OF h1 h2 h3 h4 h5 h6 h7, of SHELL]
  have "Server_abort_queue 50
     \<in> set (emitted ex_kernel (snd (execute_request ex_world ex_execute SHELL ex_kernel)))"
    by auto
  then show ?thesis
    by (intro conjI h2 h5 h6)
qed

text \<open>
  The claim as stated fails when the interpreter answers the \<^verbatim>\<open>execute_request\<close> of
  client A with an empty object: the reply has no status, and still the queue is aborted
  after the reply is sent.
\<close>

theorem abort_queue_without_error_status:
  "interpreter ex_world_empty_reply (Execute_request ''1/0'' False True None True) [] =
     ([], [], Inr (JObj [])) \<and>
   emitted ex_kernel (snd (execute_request ex_world_empty_reply ex_execute SHELL ex_kernel)) =
     [Interpreter (Execute_request ''1/0'' False True None True),
      reply_event ex_kernel SHELL [] ''execute_reply'' (JObj [])
        (get_metadata ex_world_empty_reply) (JObj []),
      Server_abort_queue 50,
      reply_event ex_kernel SHELL [''client-B''] ''complete_reply'' (header ex_complete)
        (JObj []) (JObj [(''status'', JStr ''error'')])]"
  by (simp add: ex_defs run_defs closed emitted_def reply_event_def)

subsection \<open>C8: the reply of the abort callback\<close>

text \<open>
  Claim C8. For every message drained by the abort callback that deserializes
  successfully and whose message type ends in \<^verbatim>\<open>_request\<close>, the callback returns
  normally and its one effect is a reply on the shell channel: the message type of the
  reply is the type of the drained message with the final \<^verbatim>\<open>_request\<close> replaced by
  \<^verbatim>\<open>_reply\<close>, its content is the object with the single field \<^verbatim>\<open>status\<close> set to
  \<^verbatim>\<open>error\<close>, its identities are those of the drained message and its parent header is
  the header of the drained message.
\<close>

theorem abort_request_reply:
  assumes "deserialize E wire_msg = Inr msg"
      and "header msg = JObj h"
      and "map_of h ''msg_type'' = Some (JStr (stem @ ''_request''))"
  shows "abort_request E wire_msg k =
           (None,
            emit (Server_send_shell
                    \<lparr>identities = identities msg,
                     header = make_header (stem @ ''_reply'') (m_user_name k) (m_session_id k),
                     parent_header = header msg,
                     metadata = JObj [],
                     content = JObj [(''status'', JStr ''error'')]\<rparr>) k)"
proof -
  have "value_str (header msg) ''msg_type'' '''' = Inr (stem @ ''_request'')"
    using assms(2,3) by (simp add: value_str_def)
  then show ?thesis
    using assms(1) replace_request_suffix [of stem]
    by (simp add: abort_request_def try_val_def send_reply_to_def)
qed

theorem abort_request_reply_witness:
  "deserialize ex_world [''complete''] = Inr ex_complete \<and>
   header ex_complete =
     JObj [(''msg_id'', JStr ''3''), (''msg_type'', JStr ''complete_request'')] \<and>
   abort_request ex_world [''complete''] ex_kernel =
     (None,
      emit (Server_send_shell
              \<lparr>identities = identities ex_complete,
               header = make_header (''complete'' @ ''_reply'') (m_user_name ex_kernel)
                          (m_session_id ex_kernel),
               parent_header = header ex_complete,
               metadata = JObj [],
               content = JObj [(''status'', JStr ''error'')]\<rparr>) ex_kernel)"
proof -
  have h1: "deserialize ex_world [''complete''] = Inr ex_complete"
    by (simp add: ex_world_def ex_deserialize_def)
  have h2: "header ex_complete =
              JObj [(''msg_id'', JStr ''3''), (''msg_type'', JStr ''complete_request'')]"
    by (simp add: ex_complete_def)
  have h3: "map_of [(''msg_id'', JStr ''3''), (''msg_type'', JStr ''complete_request'')]
              ''msg_type'' = Some (JStr (''complete'' @ ''_request''))"
    by simp
  show ?thesis
    by (intro conjI h1 h2 abort_request_reply [OF h1 h2 h3])
qed

subsection \<open>C9: the reply to a \<^verbatim>\<open>comm_info_request\<close>\<close>

text \<open>
  Claim C9. For every \<^verbatim>\<open>comm_info_request\<close> whose \<^verbatim>\<open>target_name\<close> is absent (the
  content is null or an object without the field) or a string, the handler returns
  normally and sends one \<^verbatim>\<open>comm_info_reply\<close> whose content is the object with the fields
  \<^verbatim>\<open>comms\<close> and \<^verbatim>\<open>status\<close>, the latter \<^verbatim>\<open>ok\<close>. With \<open>target_name\<close> standing for
  the string, empty when the field is absent: the object \<^verbatim>\<open>comms\<close> has an entry under a
  comm id exactly when the comm is registered under that id and the target name is empty
  or equal to the name of the comm's target, and the entry is the object with the single
  field \<^verbatim>\<open>target_name\<close>, the name of the comm's target. The ids of the registry are
  distinct, as the keys of a \<^verbatim>\<open>std::map\<close> are.
\<close>

theorem comm_info_request_reply:
  assumes "content request = JNull \<and> target_name = [] \<or>
           (\<exists>cont. content request = JObj cont \<and>
              (map_of cont ''target_name'' = None \<and> target_name = [] \<or>
               map_of cont ''target_name'' = Some (JStr target_name)))"
      and "distinct (map fst (m_comms k))"
  shows "\<exists>comms.
           comm_info_request E request c k =
             (None, emit (reply_event k c (m_parent_id k) ''comm_info_reply''
                            (m_parent_header k) (JObj [])
                            (JObj [(''comms'', JObj comms), (''status'', JStr ''ok'')])) k) \<and>
           distinct (map fst comms) \<and>
           (\<forall>comm_id.
              map_of comms comm_id =
                (case map_of (m_comms k) comm_id of
                   None \<Rightarrow> None
                 | Some name \<Rightarrow>
                     if target_name = [] \<or> name = target_name
                     then Some (JObj [(''target_name'', JStr name)]) else None))"
proof -
  have t: "(if is_null (content request) then Inr ''''
            else value_str (content request) ''target_name'' '''') = Inr target_name"
    using assms(1) by (auto simp add: is_null_def value_str_def)
  have run: "comm_info_request E request c k =
          (None, emit (reply_event k c (m_parent_id k) ''comm_info_reply'' (m_parent_header k)
             (JObj [])
             (JObj [(''comms'', JObj (comm_info_loop target_name (m_comms k) [])),
                    (''status'', JStr ''ok'')])) k)"
    by (cases c)
       (simp_all add: comm_info_request_def t try_val_def Let_def send_reply_def
          send_reply_to_def reply_event_def get_parent_id_def get_parent_header_def)
  show ?thesis
    using run comm_info_loop_lookup [OF assms(2), of target_name "[]"]
      comm_info_loop_distinct [of "[]" target_name "m_comms k"]
    by (intro exI [of _ "comm_info_loop target_name (m_comms k) []"])
       (simp split: option.splits)
qed

text \<open>
  An instance: of the three comms of the kernel, two have the target \<^verbatim>\<open>plot\<close>, and the
  request asks for that target.
\<close>

theorem comm_info_request_reply_witness:
  "content ex_comm_info = JObj [(''target_name'', JStr ''plot'')] \<and>
   distinct (map fst (m_comms ex_kernel_comms)) \<and>
   (\<exists>comms.
      comm_info_request ex_world ex_comm_info CONTROL ex_kernel_comms =
        (None, emit (reply_event ex_kernel_comms CONTROL (m_parent_id ex_kernel_comms)
                       ''comm_info_reply'' (m_parent_header ex_kernel_comms) (JObj [])
                       (JObj [(''comms'', JObj comms), (''status'', JStr ''ok'')]))
                 ex_kernel_comms) \<and>
      map_of comms ''c1'' = Some (JObj [(''target_name'', JStr ''plot'')]) \<and>
      map_of comms ''c2'' = None \<and>
      map_of comms ''c3'' = Some (JObj [(''target_name'', JStr ''plot'')]) \<and>
      map_of comms ''c4'' = None)"
proof -
  have h1: "content ex_comm_info = JObj [(''target_name'', JStr ''plot'')]"
    by (simp add: ex_comm_info_def)
  have h1': "content ex_comm_info = JNull \<and> ''plot'' = [] \<or>
           (\<exists>cont. content ex_comm_info = JObj cont \<and>
              (map_of cont ''target_name'' = None \<and> ''plot'' = [] \<or>
               map_of cont ''target_name'' = Some (JStr ''plot'')))"
    by (simp add: ex_comm_info_def)
  have h2: "distinct (map fst (m_comms ex_kernel_comms))"
    by (simp add: ex_kernel_comms_def)
  from comm_info_request_reply [OF h1' h2, of ex_world CONTROL]
  obtain comms where
    run: "comm_info_request ex_world ex_comm_info CONTROL ex_kernel_comms =
        (None, emit (reply_event ex_kernel_comms CONTROL (m_parent_id ex_kernel_comms)
                       ''comm_info_reply'' (m_parent_header ex_kernel_comms) (JObj [])
                       (JObj [(''comms'', JObj comms), (''status'', JStr ''ok'')]))
                 ex_kernel_comms)"
    and look: "\<And>comm_id. map_of comms comm_id =
                (case map_of (m_comms ex_kernel_comms) comm_id of
                   None \<Rightarrow> None
                 | Some name \<Rightarrow>
                     if ''plot'' = [] \<or> name = ''plot''
                     then Some (JObj [(''target_name'', JStr name)]) else None)"
    by blast
  have c1: "map_of comms ''c1'' = Some (JObj [(''target_name'', JStr ''plot'')])"
    and c2: "map_of comms ''c2'' = None"
    and c3: "map_of comms ''c3'' = Some (JObj [(''target_name'', JStr ''plot'')])"
    and c4: "map_of comms ''c4'' = None"
    by (simp_all add: look ex_kernel_comms_def)
  show ?thesis
    by (intro conjI h1 h2 exI [of _ comms] run c1 c2 c3 c4)
qed

subsection \<open>C10: a reply without a status counts as an error\<close>

text \<open>
  Claim C10. For every \<^verbatim>\<open>execute_request\<close> to which the interpreter returns an object
  without a \<^verbatim>\<open>status\<close> field, the handler sends the \<^verbatim>\<open>execute_reply\<close> with that
  object, unchanged, as its content, and treats the missing status as \<^verbatim>\<open>error\<close>: when
  \<^verbatim>\<open>silent\<close> is false and \<^verbatim>\<open>stop_on_error\<close> is true it then calls
  \<^verbatim>\<open>abort_queue\<close> with a timeout of 50, and the replies of the abort callback follow;
  otherwise the reply is its last event.
\<close>

theorem execute_request_missing_status:
  assumes "value_str (content request) ''code'' '''' = Inr code"
      and "value_bool (content request) ''silent'' False = Inr silent"
      and "value_bool (content request) ''store_history'' True = Inr store_history"
      and "value_bool (content request) ''allow_stdin'' True = Inr allow_stdin"
      and "value_bool (content request) ''stop_on_error'' False = Inr stop_on_error"
      and "interpreter E
             (Execute_request code silent (store_history \<and> \<not> silent)
                (get_json_node (content request) ''user_expressions'') allow_stdin)
             (m_comms k) = (ups, cs, Inr (JObj reply))"
      and "map_of reply ''status'' = None"
  shows "\<exists>drained.
           emitted k (snd (execute_request E request c k)) =
             Interpreter (Execute_request code silent (store_history \<and> \<not> silent)
                (get_json_node (content request) ''user_expressions'') allow_stdin)
             # map (upcall_event k) ups
             @ reply_event k c (m_parent_id k) ''execute_reply'' (m_parent_header k)
                 (get_metadata E) (JObj reply)
             # (if \<not> silent \<and> stop_on_error then Server_abort_queue 50 # drained else []) \<and>
           list_all (abort_reply E) drained"
proof -
  have st: "value_str (JObj reply) ''status'' ''error'' = Inr ''error''"
    using assms(7) by (simp add: value_str_def)
  from execute_request_trace [OF assms(1-6) st, of c]
  show ?thesis by simp
qed

theorem execute_request_missing_status_witness:
  "value_bool (content ex_execute) ''silent'' False = Inr False \<and>
   value_bool (content ex_execute) ''stop_on_error'' False = Inr True \<and>
   interpreter ex_world_empty_reply
       (Execute_request ''1/0'' False (True \<and> \<not> False)
          (get_json_node (content ex_execute) ''user_expressions'') True)
       (m_comms ex_kernel) = ([], [], Inr (JObj [])) \<and>
   (\<exists>drained.
      emitted ex_kernel
        (snd (execute_request ex_world_empty_reply ex_execute CONTROL ex_kernel)) =
        Interpreter (Execute_request ''1/0'' False (True \<and> \<not> False)
          (get_json_node (content ex_execute) ''user_expressions'') True)
        # map (upcall_event ex_kernel) []
        @ reply_event ex_kernel CONTROL (m_parent_id ex_kernel) ''execute_reply''
            (m_parent_header ex_kernel) (get_metadata ex_world_empty_reply) (JObj [])
        # (if \<not> False \<and> True then Server_abort_queue 50 # drained else []) \<and>
      list_all (abort_reply ex_world_empty_reply) drained)"
proof -
  have h1: "value_str (content ex_execute) ''code'' [] = Inr ''1/0''"
    by (simp add: ex_execute_def value_str_def)
  have h2: "value_bool (content ex_execute) ''silent'' False = Inr False"
    by (simp add: ex_execute_def value_bool_def)
  have h3: "value_bool (content ex_execute) ''store_history'' True = Inr True"
    by (simp add: ex_execute_def value_bool_def)
  have h4: "value_bool (content ex_execute) ''allow_stdin'' True = Inr True"
    by (simp add: ex_execute_def value_bool_def)
  have h5: "value_bool (content ex_execute) ''stop_on_error'' False = Inr True"
    by (simp add: ex_execute_def value_bool_def)
  have h6: "interpreter ex_world_empty_reply
       (Execute_request ''1/0'' False (True \<and> \<not> False)
          (get_json_node (content ex_execute) ''user_expressions'') True)
       (m_comms ex_kernel) = ([], [], Inr (JObj []))"
    by (simp add: ex_defs)
  have h7: "map_of ([] :: (string \<times> json) list) ''status'' = None"
    by simp
  show ?thesis
    by (intro conjI h2 h5 h6 execute_request_missing_status [OF h1 h2 h3 h4 h5 h6 h7])
qed

end
